theory Spec2Isabelle
  imports Complex_Main "HOL-Library.Word"
begin

unbundle bit_operations_syntax

section \<open>JavaScript values\<close>

text \<open>
  The values that flow through the request-authentication code are JSON data: the decoded
  claims of a token, a JWK, a browser fingerprint. A field value is a JavaScript primitive;
  \<open>Undefined\<close> is what a property read yields when the property is absent. Numbers are
  modelled as integers (JSON numbers with a fraction, NaN and the infinities are outside this
  model), strings as lists of 8-bit characters (code units below 256).
\<close>

datatype jsval = Undefined | Null | Bool bool | Num int | Str string

text \<open>A parsed JSON document: a primitive, or an object with its properties in order.\<close>

datatype jsdata = Prim jsval | Obj "(string \<times> jsval) list"

text \<open>\<open>!v\<close> of JavaScript: the falsy primitives.\<close>

fun falsy :: "jsval \<Rightarrow> bool" where
  "falsy Undefined = True"
| "falsy Null = True"
| "falsy (Bool b) = (\<not> b)"
| "falsy (Num n) = (n = 0)"
| "falsy (Str s) = (s = [])"

text \<open>\<open>a || d\<close>.\<close>

definition js_or :: "jsval \<Rightarrow> jsval \<Rightarrow> jsval" where
  "js_or a d = (if falsy a then d else a)"

text \<open>
  \<open>o.k\<close> and \<open>o[k]\<close>: reading a property of \<open>null\<close> or \<open>undefined\<close> throws a TypeError
  (\<open>None\<close>); on any other primitive the read yields \<open>undefined\<close> for the data properties used here.
\<close>

fun get_prop :: "jsdata \<Rightarrow> string \<Rightarrow> jsval option" where
  "get_prop (Obj kvs) k = Some (case map_of kvs k of None \<Rightarrow> Undefined | Some v \<Rightarrow> v)"
| "get_prop (Prim Undefined) k = None"
| "get_prop (Prim Null) k = None"
| "get_prop (Prim v) k = Some Undefined"

text \<open>\<open>!d\<close> and \<open>typeof d\<close> on a parsed document.\<close>

fun falsy_data :: "jsdata \<Rightarrow> bool" where
  "falsy_data (Prim v) = falsy v"
| "falsy_data (Obj kvs) = False"

fun is_object :: "jsdata \<Rightarrow> bool" where
  "is_object (Obj kvs) = True"
| "is_object (Prim Null) = True"
| "is_object (Prim v) = False"

section \<open>Number and string rendering\<close>

definition digit_char :: "nat \<Rightarrow> char" where
  "digit_char d = ''0123456789'' ! d"

fun show_nat :: "nat \<Rightarrow> string" where
  "show_nat n = (if n < 10 then [digit_char n] else show_nat (n div 10) @ [digit_char (n mod 10)])"

declare show_nat.simps [simp del]

text \<open>Number-to-string conversion for integers (of magnitude below \<open>10^21\<close>).\<close>

definition show_int :: "int \<Rightarrow> string" where
  "show_int i = (if i < 0 then CHR ''-'' # show_nat (nat (- i)) else show_nat (nat i))"

definition hex_char :: "nat \<Rightarrow> char" where
  "hex_char d = ''0123456789abcdef'' ! d"

fun show_hex :: "nat \<Rightarrow> string" where
  "show_hex n = (if n < 16 then [hex_char n] else show_hex (n div 16) @ [hex_char (n mod 16)])"

declare show_hex.simps [simp del]

text \<open>
  \<open>JSON.stringify\<close> on a string: the quotation mark and the backslash are escaped, the
  control characters have their short escapes or \<open>\u00XX\<close>.
\<close>

definition json_escape :: "char \<Rightarrow> string" where
  "json_escape c =
     (let n = (of_char c :: nat) in
      if n = 8 then [CHR 0x5C, CHR ''b'']
      else if n = 9 then [CHR 0x5C, CHR ''t'']
      else if n = 10 then [CHR 0x5C, CHR ''n'']
      else if n = 12 then [CHR 0x5C, CHR ''f'']
      else if n = 13 then [CHR 0x5C, CHR ''r'']
      else if n = 34 then [CHR 0x5C, CHR 0x22]
      else if n = 92 then [CHR 0x5C, CHR 0x5C]
      else if n < 32 then [CHR 0x5C, CHR ''u'', CHR ''0'', CHR ''0'', hex_char (n div 16), hex_char (n mod 16)]
      else [c])"

definition json_quote :: "string \<Rightarrow> string" where
  "json_quote s = [CHR 0x22] @ concat (map json_escape s) @ [CHR 0x22]"

text \<open>\<open>JSON.stringify\<close> on a property value; \<open>None\<close> where the property is left out.\<close>

fun stringify_val :: "jsval \<Rightarrow> string option" where
  "stringify_val Undefined = None"
| "stringify_val Null = Some ''null''"
| "stringify_val (Bool b) = Some (if b then ''true'' else ''false'')"
| "stringify_val (Num n) = Some (show_int n)"
| "stringify_val (Str s) = Some (json_quote s)"

fun stringify_props :: "(string \<times> jsval) list \<Rightarrow> string list" where
  "stringify_props [] = []"
| "stringify_props ((k, v) # kvs) =
     (case stringify_val v of
        None \<Rightarrow> stringify_props kvs
      | Some s \<Rightarrow> (json_quote k @ '':'' @ s) # stringify_props kvs)"

fun join :: "string \<Rightarrow> string list \<Rightarrow> string" where
  "join sep [] = []"
| "join sep [x] = x"
| "join sep (x # y # ys) = x @ sep @ join sep (y # ys)"

definition stringify_obj :: "(string \<times> jsval) list \<Rightarrow> string" where
  "stringify_obj kvs = ''{'' @ join '','' (stringify_props kvs) @ ''}''"

section \<open>Key thumbprint (utils/crypto.js)\<close>

text \<open>
  \<open>generateKeyThumbprint\<close> builds the canonical JWK from the four members \<open>crv\<close>, \<open>kty\<close>,
  \<open>x\<close>, \<open>y\<close> of its argument, in this order, serialises it and hashes the text. The digest
  (\<open>crypto.createHash('sha256') ... digest('base64url')\<close>) belongs to the platform and is a
  parameter. A property read on \<open>null\<close> throws inside the \<open>try\<close>; the function then throws
  \<open>Failed to generate key thumbprint\<close>.
\<close>

datatype thumbprint_error = Failed_to_generate_key_thumbprint

definition generateKeyThumbprint ::
  "(string \<Rightarrow> string) \<Rightarrow> jsdata \<Rightarrow> thumbprint_error + string" where
  "generateKeyThumbprint sha256_base64url jwk =
     (case (get_prop jwk ''crv'', get_prop jwk ''kty'', get_prop jwk ''x'', get_prop jwk ''y'') of
        (Some crv, Some kty, Some x, Some y) \<Rightarrow>
          (let canonicalJwk = [(''crv'', crv), (''kty'', kty), (''x'', x), (''y'', y)];
               jwkString = stringify_obj canonicalJwk
           in Inr (sha256_base64url jwkString))
      | _ \<Rightarrow> Inl Failed_to_generate_key_thumbprint)"

section \<open>The platform\<close>

text \<open>
  What the code calls but does not define: the digests, \<open>JSON.parse\<close>, the base64url
  decoder, the jose library (\<open>importJWK\<close> and \<open>jwtVerify\<close>), the bearer-token verifier, the
  database, the process environment and the clock. Each is a parameter; a call that can throw
  returns \<open>None\<close> (or \<open>False\<close>) where it does.
\<close>

record token_claims =
  claim_sub :: jsval
  claim_cnf_jkt :: jsval
  claim_device_key_id :: jsval

record device_key =
  dk_public_key_jwk :: string
  dk_fingerprint_hash :: "string option"
  dk_last_ip :: "string option"
  dk_username :: string
  dk_email :: string

datatype db_update = Update_last_ip | Update_last_used

record platform =
  sha256_base64url :: "string \<Rightarrow> string"
  json_parse :: "string \<Rightarrow> jsdata option"
  base64url_decode :: "string \<Rightarrow> string"
  jose_verify :: "string \<Rightarrow> jsdata \<Rightarrow> bool"
  string_to_number :: "string \<Rightarrow> int option"
  jwt_verify_access :: "string \<Rightarrow> token_claims option"
  db_get_device_key :: "jsval \<Rightarrow> jsval \<Rightarrow> device_key option option"
  db_run_ok :: "db_update \<Rightarrow> bool"
  env_NODE_ENV :: "string option"
  env_FINGERPRINT_TOLERANCE :: "rat option"
  env_STRICT_IP_VALIDATION :: "string option"
  date_now :: int

section \<open>Proof verification (utils/crypto.js)\<close>

text \<open>\<open>String.prototype.toUpperCase\<close> on ASCII text (an HTTP method is an ASCII token).\<close>

definition to_upper_char :: "char \<Rightarrow> char" where
  "to_upper_char c =
     (let n = (of_char c :: nat)
      in if 97 \<le> n \<and> n \<le> 122 then ''ABCDEFGHIJKLMNOPQRSTUVWXYZ'' ! (n - 97) else c)"

definition toUpperCase :: "string \<Rightarrow> string" where
  "toUpperCase s = map to_upper_char s"

text \<open>\<open>s.split(c)\<close>.\<close>

fun split_on :: "char \<Rightarrow> string \<Rightarrow> string list" where
  "split_on c [] = [[]]"
| "split_on c (x # xs) =
     (if x = c then [] # split_on c xs
      else (case split_on c xs of [] \<Rightarrow> [[x]] | p # ps \<Rightarrow> (x # p) # ps))"

text \<open>
  The messages of the errors \<open>verifyDPoP\<close> throws itself, and the three kinds of error that
  reach its \<open>catch\<close> from below: \<open>JSON.parse\<close>, a property read on \<open>null\<close>, and jose.
  The spec calls \<open>DPoP_method_mismatch\<close> HttpMethodMismatch.
\<close>

datatype dpop_error =
    Missing_DPoP_header
  | Invalid_DPoP_format
  | Json_syntax_error
  | Type_error
  | Invalid_DPoP_header
  | DPoP_method_mismatch
  | DPoP_URL_mismatch
  | DPoP_timestamp_invalid
  | Missing_DPoP_JTI
  | Signature_error

text \<open>Lines 27 to 40: the three parts of the token, and the decoded header and payload.\<close>

definition dpop_decode :: "platform \<Rightarrow> string \<Rightarrow> dpop_error + (jsdata \<times> jsdata)" where
  "dpop_decode env dpopHeader =
     (if dpopHeader = [] then Inl Missing_DPoP_header
      else
        (case split_on CHR ''.'' dpopHeader of
           headerB64 # payloadB64 # signatureB64 # rest \<Rightarrow>
             if headerB64 = [] \<or> payloadB64 = [] \<or> signatureB64 = [] then Inl Invalid_DPoP_format
             else
               (case json_parse env (base64url_decode env headerB64) of
                  None \<Rightarrow> Inl Json_syntax_error
                | Some header \<Rightarrow>
                    (case json_parse env (base64url_decode env payloadB64) of
                       None \<Rightarrow> Inl Json_syntax_error
                     | Some payload \<Rightarrow> Inr (header, payload)))
         | _ \<Rightarrow> Inl Invalid_DPoP_format))"

text \<open>\<open>ToNumber\<close>; \<open>None\<close> is NaN.\<close>

fun to_number :: "platform \<Rightarrow> jsval \<Rightarrow> int option" where
  "to_number env Undefined = None"
| "to_number env Null = Some 0"
| "to_number env (Bool b) = Some (if b then 1 else 0)"
| "to_number env (Num n) = Some n"
| "to_number env (Str s) = string_to_number env s"

text \<open>
  \<open>!payload.iat || Math.abs(now - payload.iat) > 300\<close>, with
  \<open>now = Math.floor(Date.now() / 1000)\<close>. A comparison with NaN is false.
\<close>

definition timestamp_invalid :: "platform \<Rightarrow> jsval \<Rightarrow> bool" where
  "timestamp_invalid env iat =
     (let now = date_now env div 1000 in
      falsy iat \<or> (case to_number env iat of None \<Rightarrow> False | Some t \<Rightarrow> \<bar>now - t\<bar> > 300))"

record dpop_result =
  dpop_jti :: jsval
  dpop_iat :: jsval

text \<open>Lines 42 to 79: the checks on the decoded header and payload, then the signature.\<close>

definition dpop_check ::
  "platform \<Rightarrow> string \<Rightarrow> string \<Rightarrow> string \<Rightarrow> jsdata \<Rightarrow> jsdata \<Rightarrow> jsdata \<Rightarrow> dpop_error + dpop_result" where
  "dpop_check env dpopHeader method url publicKeyJwk header payload =
     (case (get_prop header ''alg'', get_prop header ''typ'') of
        (Some alg, Some typ) \<Rightarrow>
          if alg \<noteq> Str ''ES256'' \<or> typ \<noteq> Str ''dpop+jwt'' then Inl Invalid_DPoP_header
          else
            (case (get_prop payload ''htm'', get_prop payload ''htu'',
                   get_prop payload ''iat'', get_prop payload ''jti'') of
               (Some htm, Some htu, Some iat, Some jti) \<Rightarrow>
                 if htm \<noteq> Str (toUpperCase method) then Inl DPoP_method_mismatch
                 else if htu \<noteq> Str url then Inl DPoP_URL_mismatch
                 else if timestamp_invalid env iat then Inl DPoP_timestamp_invalid
                 else if falsy jti then Inl Missing_DPoP_JTI
                 else if \<not> jose_verify env dpopHeader publicKeyJwk then Inl Signature_error
                 else Inr \<lparr>dpop_jti = jti, dpop_iat = iat\<rparr>
             | _ \<Rightarrow> Inl Type_error)
      | _ \<Rightarrow> Inl Type_error)"

definition verifyDPoP ::
  "platform \<Rightarrow> string \<Rightarrow> string \<Rightarrow> string \<Rightarrow> jsdata \<Rightarrow> dpop_error + dpop_result" where
  "verifyDPoP env dpopHeader method url publicKeyJwk =
     (case dpop_decode env dpopHeader of
        Inl e \<Rightarrow> Inl e
      | Inr (header, payload) \<Rightarrow> dpop_check env dpopHeader method url publicKeyJwk header payload)"

section \<open>Fingerprint hash (utils/fingerprint.js)\<close>

text \<open>\<open>Array.prototype.sort\<close> without a comparator, on strings: the order of the code units.\<close>

fun str_less :: "string \<Rightarrow> string \<Rightarrow> bool" where
  "str_less [] [] = False"
| "str_less [] (y # ys) = True"
| "str_less (x # xs) [] = False"
| "str_less (x # xs) (y # ys) =
     ((of_char x :: nat) < of_char y \<or> (x = y \<and> str_less xs ys))"

fun insert_sorted :: "string \<Rightarrow> string list \<Rightarrow> string list" where
  "insert_sorted k [] = [k]"
| "insert_sorted k (x # xs) = (if str_less k x then k # x # xs else x # insert_sorted k xs)"

definition sort_strings :: "string list \<Rightarrow> string list" where
  "sort_strings ks = foldr insert_sorted ks []"

text \<open>
  \<open>JSON.stringify(obj, keys)\<close> with an array of property names: the properties named in
  the array, in the array's order.
\<close>

definition stringify_with :: "string list \<Rightarrow> (string \<times> jsval) list \<Rightarrow> string" where
  "stringify_with keys kvs =
     stringify_obj (concat (map (\<lambda>k. case map_of kvs k of None \<Rightarrow> [] | Some v \<Rightarrow> [(k, v)]) keys))"

text \<open>The object \<open>normalized\<close>, with the default of each member.\<close>

definition normalize_fingerprint :: "(string \<Rightarrow> jsval) \<Rightarrow> (string \<times> jsval) list" where
  "normalize_fingerprint field =
     [(''ua'', js_or (field ''ua'') (Str [])),
      (''lang'', js_or (field ''lang'') (Str [])),
      (''tz'', js_or (field ''tz'') (Str [])),
      (''scr'', js_or (field ''scr'') (Str [])),
      (''hwc'', js_or (field ''hwc'') (Num 0)),
      (''mem'', js_or (field ''mem'') (Num 0)),
      (''platform'', js_or (field ''platform'') (Str [])),
      (''webgl'', js_or (field ''webgl'') (Str []))]"

text \<open>
  One round of the loop: \<open>hash ^= c\<close>, then
  \<open>hash += (hash << 1) + (hash << 4) + (hash << 7) + (hash << 8) + (hash << 24)\<close>.
  The bitwise operators work on the value modulo \<open>2^32\<close>, the sum of the six 32-bit terms is
  exact, and the next \<open>^=\<close> and the final \<open>>>> 0\<close> reduce it modulo \<open>2^32\<close> again: the
  loop computes in 32-bit words.
\<close>

definition fnv_round :: "32 word \<Rightarrow> char \<Rightarrow> 32 word" where
  "fnv_round hash c =
     (let h = hash XOR of_char c
      in h + (push_bit 1 h + push_bit 4 h + push_bit 7 h + push_bit 8 h + push_bit 24 h))"

definition fnv_hash :: "string \<Rightarrow> 32 word" where
  "fnv_hash str = foldl fnv_round 2166136261 str"

definition generateFingerprintHash :: "jsdata \<Rightarrow> string option" where
  "generateFingerprintHash fingerprintData =
     (if falsy_data fingerprintData \<or> \<not> is_object fingerprintData then None
      else
        (let normalized = normalize_fingerprint
                (\<lambda>k. case get_prop fingerprintData k of None \<Rightarrow> Undefined | Some v \<Rightarrow> v);
             str = stringify_with (sort_strings (map fst normalized)) normalized
         in Some (show_hex (unat (fnv_hash str)))))"

section \<open>Fingerprint comparison (middleware/security.js)\<close>

definition truthy_str :: "string option \<Rightarrow> bool" where
  "truthy_str s = (case s of None \<Rightarrow> False | Some v \<Rightarrow> v \<noteq> [])"

text \<open>
  \<open>compareFingerprints(storedHash, currentFingerprintJson, tolerance)\<close>: the current
  fingerprint is parsed and hashed, and the two hashes are compared with \<open>===\<close>. The
  parameter \<open>tolerance\<close> is not read.
\<close>

definition compareFingerprints :: "platform \<Rightarrow> string option \<Rightarrow> string option \<Rightarrow> rat \<Rightarrow> bool" where
  "compareFingerprints env storedHash currentFingerprintJson tolerance =
     (if \<not> truthy_str storedHash \<or> \<not> truthy_str currentFingerprintJson then False
      else
        (case json_parse env (the currentFingerprintJson) of
           None \<Rightarrow> False
         | Some currentFingerprintData \<Rightarrow>
             (let currentHash = generateFingerprintHash currentFingerprintData;
                  match = (storedHash = currentHash)
              in match)))"

section \<open>The authentication middleware (middleware/auth.js)\<close>

record request =
  req_method :: string
  req_path :: string
  req_originalUrl :: string
  req_secure :: bool
  req_headers :: "string \<Rightarrow> string option"
  req_remoteAddress :: "string option"
  req_ip :: "string option"
  req_securityContext_ip :: "string option"

text \<open>The 401 responses, by their \<open>error\<close> text, and the two 500 responses.\<close>

datatype auth_error =
    Missing_or_invalid_authorization_header
  | No_DPoP_header
  | Invalid_or_expired_token
  | Token_not_properly_bound_to_device
  | Device_key_not_found_or_inactive
  | Key_thumbprint_mismatch
  | Invalid_DPoP_proof dpop_error
  | DPoP_proof_replay_detected
  | Device_verification_failed

datatype server_error = Invalid_stored_device_key | Authentication_failed

record accepted =
  acc_sub :: jsval
  acc_deviceKeyId :: jsval
  acc_fingerprintMismatch :: bool
  acc_ipChanged :: bool

datatype auth_outcome =
    Unauthorized auth_error
  | Server_error server_error
  | Next_called accepted

record verified =
  ver_deviceKey :: device_key
  ver_claims :: token_claims
  ver_dpop :: dpop_result

text \<open>\<open>`${protocol}://${host}${req.originalUrl}`\<close>; an absent Host header prints as \<open>undefined\<close>.\<close>

definition fullUrl :: "request \<Rightarrow> string" where
  "fullUrl req =
     (let protocol = (if req_secure req \<or> req_headers req ''x-forwarded-proto'' = Some ''https''
                      then ''https'' else ''http'');
          host = (case req_headers req ''host'' of None \<Rightarrow> ''undefined'' | Some h \<Rightarrow> h)
      in protocol @ ''://'' @ host @ req_originalUrl req)"

text \<open>
  Lines 18 to 93 of \<open>authenticateToken\<close>: everything up to and including the verification of
  the proof. An exception outside the inner \<open>try\<close> blocks reaches the outer \<open>catch\<close>, which
  answers 500 \<open>Authentication failed\<close>.
\<close>

definition authenticate_verify :: "platform \<Rightarrow> request \<Rightarrow> auth_outcome + verified" where
  "authenticate_verify env req =
     (case req_headers req ''authorization'' of
        None \<Rightarrow> Inl (Unauthorized Missing_or_invalid_authorization_header)
      | Some authHeader \<Rightarrow>
          if authHeader = [] \<or> take 7 authHeader \<noteq> ''Bearer ''
          then Inl (Unauthorized Missing_or_invalid_authorization_header)
          else
            (let token = drop 7 authHeader in
             if \<not> truthy_str (req_headers req ''dpop'') then Inl (Unauthorized No_DPoP_header)
             else
               (let dpopHeader = the (req_headers req ''dpop'') in
                case jwt_verify_access env token of
                  None \<Rightarrow> Inl (Unauthorized Invalid_or_expired_token)
                | Some payload \<Rightarrow>
                    (let keyThumbprint = claim_cnf_jkt payload;
                         deviceKeyId = claim_device_key_id payload
                     in
                     if falsy keyThumbprint \<or> falsy deviceKeyId
                     then Inl (Unauthorized Token_not_properly_bound_to_device)
                     else
                       (case db_get_device_key env deviceKeyId (claim_sub payload) of
                          None \<Rightarrow> Inl (Server_error Authentication_failed)
                        | Some None \<Rightarrow> Inl (Unauthorized Device_key_not_found_or_inactive)
                        | Some (Some deviceKey) \<Rightarrow>
                            (case json_parse env (dk_public_key_jwk deviceKey) of
                               None \<Rightarrow> Inl (Server_error Invalid_stored_device_key)
                             | Some publicKeyJwk \<Rightarrow>
                                 (case generateKeyThumbprint (sha256_base64url env) publicKeyJwk of
                                    Inl e \<Rightarrow> Inl (Server_error Authentication_failed)
                                  | Inr storedThumbprint \<Rightarrow>
                                      if Str storedThumbprint \<noteq> keyThumbprint
                                      then Inl (Unauthorized Key_thumbprint_mismatch)
                                      else
                                        (case verifyDPoP env dpopHeader (req_method req) (fullUrl req) publicKeyJwk of
                                           Inl e \<Rightarrow> Inl (Unauthorized (Invalid_DPoP_proof e))
                                         | Inr dpopResult \<Rightarrow>
                                             Inr \<lparr>ver_deviceKey = deviceKey, ver_claims = payload,
                                                  ver_dpop = dpopResult\<rparr>))))))))"

text \<open>\<open>parseFloat(process.env.FINGERPRINT_TOLERANCE) || 0.7\<close>.\<close>

definition fingerprint_tolerance :: "platform \<Rightarrow> rat" where
  "fingerprint_tolerance env =
     (case env_FINGERPRINT_TOLERANCE env of None \<Rightarrow> 7 / 10 | Some t \<Rightarrow> if t = 0 then 7 / 10 else t)"

text \<open>
  Lines 95 to 176: the replay check on the set \<open>jtiCache\<close>, the fingerprint and address
  validations, the update of the key's last use. The function returns the response and the new
  contents of \<open>jtiCache\<close>. There is no \<open>await\<close> between \<open>jtiCache.has\<close> and \<open>jtiCache.add\<close>.
  A JavaScript set compares strings and the other primitives by value, as the set of this
  model does; a \<open>jti\<close> that is an array or an object would be compared by identity and is
  outside this model.
\<close>

definition authenticate_bind ::
  "platform \<Rightarrow> request \<Rightarrow> verified \<Rightarrow> jsval set \<Rightarrow> auth_outcome \<times> jsval set" where
  "authenticate_bind env req v jtiCache =
     (let deviceKey = ver_deviceKey v; dpopResult = ver_dpop v in
      if dpop_jti dpopResult \<in> jtiCache then (Unauthorized DPoP_proof_replay_detected, jtiCache)
      else
        (let jtiCache' = insert (dpop_jti dpopResult) jtiCache;
             currentFingerprint = req_headers req ''x-fingerprint'';
             currentIP = req_securityContext_ip req;
             fingerprintMismatch =
               (truthy_str (dk_fingerprint_hash deviceKey) \<and> truthy_str currentFingerprint \<and>
                \<not> compareFingerprints env (dk_fingerprint_hash deviceKey) currentFingerprint
                     (fingerprint_tolerance env))
         in
         if fingerprintMismatch \<and> env_NODE_ENV env = Some ''production''
         then (Unauthorized Device_verification_failed, jtiCache')
         else
           (let ipChanged =
                  (truthy_str (dk_last_ip deviceKey) \<and> truthy_str currentIP \<and>
                   env_STRICT_IP_VALIDATION env = Some ''true'' \<and> dk_last_ip deviceKey \<noteq> currentIP)
            in
            if ipChanged \<and> \<not> db_run_ok env Update_last_ip
            then (Server_error Authentication_failed, jtiCache')
            else if \<not> db_run_ok env Update_last_used
            then (Server_error Authentication_failed, jtiCache')
            else
              (Next_called \<lparr>acc_sub = claim_sub (ver_claims v),
                            acc_deviceKeyId = claim_device_key_id (ver_claims v),
                            acc_fingerprintMismatch = fingerprintMismatch,
                            acc_ipChanged = ipChanged\<rparr>, jtiCache'))))"

definition authenticateToken ::
  "platform \<Rightarrow> request \<Rightarrow> jsval set \<Rightarrow> auth_outcome \<times> jsval set" where
  "authenticateToken env req jtiCache =
     (case authenticate_verify env req of
        Inl response \<Rightarrow> (response, jtiCache)
      | Inr v \<Rightarrow> authenticate_bind env req v jtiCache)"

text \<open>The timer of \<open>auth.js\<close>: every five minutes the cache is emptied if it holds more than 10000 entries.\<close>

definition JTI_CACHE_SIZE :: nat where
  "JTI_CACHE_SIZE = 10000"

definition clean_jti_cache :: "jsval set \<Rightarrow> jsval set" where
  "clean_jti_cache jtiCache = (if card jtiCache > JTI_CACHE_SIZE then {} else jtiCache)"

section \<open>Fingerprint similarity (utils/fingerprint.js)\<close>

definition is_digit :: "char \<Rightarrow> bool" where
  "is_digit c = (48 \<le> (of_char c :: nat) \<and> (of_char c :: nat) \<le> 57)"

text \<open>\<open>parseInt\<close> on a string of decimal digits (exact below \<open>2^53\<close>).\<close>

definition parse_digits :: "string \<Rightarrow> nat" where
  "parse_digits ds = foldl (\<lambda>n c. 10 * n + (of_char c - 48)) 0 ds"

text \<open>
  The regular expressions \<open>/Chrome\/(\d+)/\<close> and its four siblings: the name, a slash and
  one or more digits. \<open>match_here\<close> tries the expression at the start of the text and yields
  the digits; \<open>regex_search\<close> is \<open>ua.match(pattern)\<close>, the leftmost match.
\<close>

definition match_here :: "string \<Rightarrow> string \<Rightarrow> string option" where
  "match_here name s =
     (let p = name @ ''/'' in
      if take (length p) s = p
      then (let ds = takeWhile is_digit (drop (length p) s) in if ds = [] then None else Some ds)
      else None)"

fun regex_search :: "string \<Rightarrow> string \<Rightarrow> string option" where
  "regex_search name [] = match_here name []"
| "regex_search name (c # cs) =
     (case match_here name (c # cs) of Some ds \<Rightarrow> Some ds | None \<Rightarrow> regex_search name cs)"

text \<open>\<open>pattern.source\<close>, of which \<open>extractBrowserInfo\<close> keeps the part before the first slash.\<close>

definition pattern_source :: "string \<Rightarrow> string" where
  "pattern_source name = name @ [CHR 0x5C] @ ''/('' @ [CHR 0x5C] @ ''d+)''"

fun first_match :: "string list \<Rightarrow> string \<Rightarrow> (string \<times> nat) option" where
  "first_match [] ua = None"
| "first_match (name # names) ua =
     (case regex_search name ua of
        Some ds \<Rightarrow> Some (hd (split_on CHR ''/'' (pattern_source name)), parse_digits ds)
      | None \<Rightarrow> first_match names ua)"

definition extractBrowserInfo :: "string \<Rightarrow> (string \<times> nat) option" where
  "extractBrowserInfo ua = first_match [''Chrome'', ''Firefox'', ''Safari'', ''Edge'', ''Opera''] ua"

text \<open>
  \<open>calculateLevenshteinDistance(str1, str2)\<close> fills a matrix with one row for each
  character of \<open>str2\<close>; \<open>lev_row\<close> computes row \<open>i\<close> from row \<open>i - 1\<close>, with \<open>d\<close> the
  entry above to the left, \<open>u\<close> the entry above and \<open>left\<close> the entry just written.
\<close>

fun lev_row :: "char \<Rightarrow> string \<Rightarrow> nat list \<Rightarrow> nat \<Rightarrow> nat list" where
  "lev_row c (x # xs) (d # u # prev) left =
     (let v = (if c = x then d else min (d + 1) (min (left + 1) (u + 1)))
      in v # lev_row c xs (u # prev) v)"
| "lev_row c xs prev left = []"

fun lev_rows :: "string \<Rightarrow> string \<Rightarrow> nat list \<Rightarrow> nat \<Rightarrow> nat list" where
  "lev_rows str1 [] row i = row"
| "lev_rows str1 (c # cs) row i = lev_rows str1 cs (i # lev_row c str1 row i) (i + 1)"

definition calculateLevenshteinDistance :: "string \<Rightarrow> string \<Rightarrow> nat" where
  "calculateLevenshteinDistance str1 str2 = last (lev_rows str1 str2 [0 ..< length str1 + 1] 1)"

definition calculateStringSimilarity :: "string \<Rightarrow> string \<Rightarrow> rat" where
  "calculateStringSimilarity str1 str2 =
     (if str1 = [] \<or> str2 = [] then 0
      else if str1 = str2 then 1
      else
        (let longer = (if length str1 > length str2 then str1 else str2);
             shorter = (if length str1 > length str2 then str2 else str1)
         in if length longer = 0 then 1
            else
              (let editDistance = calculateLevenshteinDistance longer shorter
               in (of_nat (length longer) - of_nat editDistance) / of_nat (length longer))))"

text \<open>
  \<open>calculateUserAgentSimilarity\<close>. A user agent that is not a string has no \<open>match\<close>
  method: the call throws, and the \<open>catch\<close> returns 0. The arithmetic is exact here, where the
  code computes in floating point.
\<close>

definition calculateUserAgentSimilarity :: "jsval \<Rightarrow> jsval \<Rightarrow> rat" where
  "calculateUserAgentSimilarity stored current =
     (if falsy stored \<or> falsy current then 0
      else if stored = current then 1
      else
        (case (stored, current) of
           (Str s, Str c) \<Rightarrow>
             (case (extractBrowserInfo s, extractBrowserInfo c) of
                (Some storedInfo, Some currentInfo) \<Rightarrow>
                  if fst storedInfo = fst currentInfo
                  then (let versionDiff = \<bar>int (snd storedInfo) - int (snd currentInfo)\<bar>
                        in max 0 (1 - of_int versionDiff / 10))
                  else 0
              | _ \<Rightarrow> calculateStringSimilarity s c)
         | _ \<Rightarrow> 0))"

definition weights :: "(string \<times> rat) list" where
  "weights =
     [(''ua'', 3 / 10), (''lang'', 1 / 10), (''tz'', 1 / 10), (''scr'', 2 / 10),
      (''hwc'', 1 / 10), (''mem'', 1 / 10), (''platform'', 5 / 100), (''webgl'', 5 / 100)]"

text \<open>What one round of the loop over \<open>weights\<close> adds to \<open>matches\<close>.\<close>

definition field_contribution :: "string \<Rightarrow> rat \<Rightarrow> jsval \<Rightarrow> jsval \<Rightarrow> rat" where
  "field_contribution key weight storedValue currentValue =
     (if storedValue = currentValue then weight
      else if key = ''ua'' then weight * calculateUserAgentSimilarity storedValue currentValue
      else 0)"

text \<open>\<open>typeof d === 'string' ? JSON.parse(d) : d\<close>.\<close>

definition parse_if_string :: "platform \<Rightarrow> jsdata \<Rightarrow> jsdata option" where
  "parse_if_string env d = (case d of Prim (Str s) \<Rightarrow> json_parse env s | _ \<Rightarrow> Some d)"

definition compareFingerprintSimilarity :: "platform \<Rightarrow> jsdata \<Rightarrow> jsdata \<Rightarrow> rat" where
  "compareFingerprintSimilarity env stored current =
     (if falsy_data stored \<or> falsy_data current then 0
      else
        (case (parse_if_string env stored, parse_if_string env current) of
           (Some storedData, Some currentData) \<Rightarrow>
             if get_prop storedData ''ua'' = None \<or> get_prop currentData ''ua'' = None then 0
             else
               (let step = (\<lambda>(matches, total) (key, weight).
                              (matches + field_contribution key weight
                                           (the (get_prop storedData key)) (the (get_prop currentData key)),
                               total + weight));
                    (matches, total) = foldl step (0, 0) weights
                in if total > 0 then matches / total else 0)
         | _ \<Rightarrow> 0))"

text \<open>The same hash round on natural numbers, for computing with numerals.\<close>

definition fnv_round_nat :: "nat \<Rightarrow> char \<Rightarrow> nat" where
  "fnv_round_nat h c = ((h XOR of_char c) * 16777619) mod 4294967296"

text \<open>
  What happens to \<open>jtiCache\<close> over time: requests pass through \<open>authenticateToken\<close> one
  after the other, and the timer fires in between.
\<close>

datatype cache_event = Request platform request | Timer

fun run_events :: "cache_event list \<Rightarrow> jsval set \<Rightarrow> jsval set" where
  "run_events [] jtiCache = jtiCache"
| "run_events (Request env req # events) jtiCache =
     run_events events (snd (authenticateToken env req jtiCache))"
| "run_events (Timer # events) jtiCache = run_events events (clean_jti_cache jtiCache)"

section \<open>Notions of the specification\<close>

text \<open>
  The specification compares the method of a proof with the method of the request
  "case-insensitively": two texts are equal up to the case of their letters.
\<close>

definition equal_ignoring_case :: "string \<Rightarrow> string \<Rightarrow> bool" where
  "equal_ignoring_case a b = (toUpperCase a = toUpperCase b)"

text \<open>
  "All other claims and the signature being valid": every check of \<open>verifyDPoP\<close> on the
  decoded proof passes, the check of the timestamp left aside.
\<close>

definition other_checks_pass ::
  "platform \<Rightarrow> string \<Rightarrow> string \<Rightarrow> string \<Rightarrow> jsdata \<Rightarrow> jsdata \<Rightarrow> jsdata \<Rightarrow> bool" where
  "other_checks_pass env dpopHeader method url publicKeyJwk header payload =
     (get_prop header ''alg'' = Some (Str ''ES256'') \<and>
      get_prop header ''typ'' = Some (Str ''dpop+jwt'') \<and>
      get_prop payload ''htm'' = Some (Str (toUpperCase method)) \<and>
      get_prop payload ''htu'' = Some (Str url) \<and>
      (case get_prop payload ''jti'' of None \<Rightarrow> False | Some jti \<Rightarrow> \<not> falsy jti) \<and>
      jose_verify env dpopHeader publicKeyJwk)"

section \<open>The anti-scraping middleware (middleware/antiScraping.js)\<close>

text \<open>
  The map \<open>requestPatterns\<close> holds one pattern for each client id: the recent requests, the
  sets of paths and user agents seen (JavaScript sets keep the order of insertion, so they are
  lists without repetition here; a missing User-Agent header is the element \<open>undefined\<close>),
  and the suspicion score.
\<close>

record request_entry =
  re_timestamp :: int
  re_path :: string
  re_method :: string
  re_userAgent :: "string option"

record request_pattern =
  pat_requests :: "request_entry list"
  pat_paths :: "string list"
  pat_userAgents :: "string option list"
  pat_suspicionScore :: int

type_synonym request_patterns = "string \<Rightarrow> request_pattern option"

text \<open>\<open>set.add(x)\<close>.\<close>

definition set_add :: "'a list \<Rightarrow> 'a \<Rightarrow> 'a list" where
  "set_add xs x = (if x \<in> set xs then xs else xs @ [x])"

text \<open>\<open>req.headers[name] || ''\<close>.\<close>

definition header_or_empty :: "request \<Rightarrow> string \<Rightarrow> string" where
  "header_or_empty req name = (case req_headers req name of None \<Rightarrow> [] | Some v \<Rightarrow> v)"

text \<open>\<open>s.includes(sub)\<close> and \<open>s.startsWith(p)\<close>.\<close>

fun str_includes :: "string \<Rightarrow> string \<Rightarrow> bool" where
  "str_includes [] sub = (sub = [])"
| "str_includes (c # cs) sub = (take (length sub) (c # cs) = sub \<or> str_includes cs sub)"

definition startsWith :: "string \<Rightarrow> string \<Rightarrow> bool" where
  "startsWith s p = (take (length p) s = p)"

text \<open>
  \<open>getClientId\<close>: the first 16 characters of the digest of the four factors joined by a
  bar. The digest (\<open>sha256\<close>, in hexadecimal) is a parameter.
\<close>

definition getClientId :: "(string \<Rightarrow> string) \<Rightarrow> request \<Rightarrow> string" where
  "getClientId sha256_hex req =
     (let address = (if truthy_str (req_remoteAddress req) then the (req_remoteAddress req)
                     else if truthy_str (req_ip req) then the (req_ip req) else []);
          factors = join ''|''
            [header_or_empty req ''user-agent'', header_or_empty req ''accept-language'',
             header_or_empty req ''accept-encoding'', address]
      in take 16 (sha256_hex factors))"

text \<open>
  The intervals between consecutive requests, their mean and their variance. The code
  computes both in floating point; they are exact rationals here.
\<close>

fun intervals :: "int list \<Rightarrow> int list" where
  "intervals (a # b # ts) = (b - a) # intervals (b # ts)"
| "intervals ts = []"

definition mean :: "int list \<Rightarrow> rat" where
  "mean xs = of_int (sum_list xs) / of_nat (length xs)"

definition variance :: "int list \<Rightarrow> rat" where
  "variance xs = sum_list (map (\<lambda>x. (of_int x - mean xs)\<^sup>2) xs) / of_nat (length xs)"

text \<open>
  \<open>path.match(/\/(\d+)$/)\<close>: the leftmost slash that is followed by digits only, up to the
  end of the path; the result is the digits.
\<close>

fun trailing_digits :: "string \<Rightarrow> string option" where
  "trailing_digits [] = None"
| "trailing_digits (c # cs) =
     (if c = CHR ''/'' \<and> cs \<noteq> [] \<and> list_all is_digit cs then Some cs else trailing_digits cs)"

definition hasSequentialPaths :: "string list \<Rightarrow> bool" where
  "hasSequentialPaths pathArray =
     list_ex (\<lambda>path.
        case trailing_digits path of
          None \<Rightarrow> False
        | Some ds \<Rightarrow>
            (let num = int (parse_digits ds)
             in (''/'' @ show_int (num + 1)) \<in> set pathArray \<or> (''/'' @ show_int (num - 1)) \<in> set pathArray))
       pathArray"

text \<open>
  \<open>calculateSuspicionScore\<close>: the five signals, which the code adds to \<open>score\<close> one after
  the other, and the cap at 100.
\<close>

definition calculateSuspicionScore :: "request_pattern \<Rightarrow> int" where
  "calculateSuspicionScore pattern =
     (let requests = pat_requests pattern in
      if length requests = 0 then 0
      else
        (let frequency = (if length requests > 50 then 30 else if length requests > 20 then 15 else 0);
             timing =
               (if length requests > 5
                then (let ivs = intervals (map re_timestamp requests)
                      in if variance ivs < 1000 \<and> mean ivs < 5000 then 25 else 0)
                else 0);
             uniquePaths = length (pat_paths pattern);
             totalRequests = length requests;
             diversity_score =
               (if totalRequests > 10
                then (let diversity = (of_nat uniquePaths / of_nat totalRequests :: rat)
                      in (if diversity > 8 / 10 then 20 else 0) + (if diversity < 1 / 10 then 15 else 0))
                else 0);
             sequential = (if hasSequentialPaths (pat_paths pattern) then 20 else 0);
             agents = (if length (pat_userAgents pattern) > 3 then 15 else 0)
         in min (frequency + timing + diversity_score + sequential + agents) 100))"

text \<open>
  \<open>analyzeRequestPattern\<close>, with \<open>now\<close> the value of \<open>Date.now()\<close>:
  \<open>pattern_or_new\<close> is \<open>this.requestPatterns.get(clientId) || {...}\<close>, and
  \<open>entry_of\<close> is the object pushed onto \<open>pattern.requests\<close>.
\<close>

definition pattern_or_new :: "request_patterns \<Rightarrow> string \<Rightarrow> request_pattern" where
  "pattern_or_new requestPatterns clientId =
     (case requestPatterns clientId of
        None \<Rightarrow> \<lparr>pat_requests = [], pat_paths = [], pat_userAgents = [], pat_suspicionScore = 0\<rparr>
      | Some p \<Rightarrow> p)"

definition entry_of :: "int \<Rightarrow> request \<Rightarrow> request_entry" where
  "entry_of now req =
     \<lparr>re_timestamp = now, re_path = req_path req, re_method = req_method req,
      re_userAgent = req_headers req ''user-agent''\<rparr>"

text \<open>Lines 68 to 80: the request is pushed, the two sets grow, old requests are dropped.\<close>

definition record_request :: "int \<Rightarrow> request \<Rightarrow> request_pattern \<Rightarrow> request_pattern" where
  "record_request now req pattern =
     pattern\<lparr>pat_requests := filter (\<lambda>r. now - re_timestamp r < 600000)
                                (pat_requests pattern @ [entry_of now req]),
             pat_paths := set_add (pat_paths pattern) (req_path req),
             pat_userAgents := set_add (pat_userAgents pattern) (req_headers req ''user-agent'')\<rparr>"

definition analyzeRequestPattern :: "int \<Rightarrow> request \<Rightarrow> string \<Rightarrow> request_patterns \<Rightarrow> request_patterns" where
  "analyzeRequestPattern now req clientId requestPatterns =
     (let pattern = record_request now req (pattern_or_new requestPatterns clientId);
          pattern' = pattern\<lparr>pat_suspicionScore := calculateSuspicionScore pattern\<rparr>
      in requestPatterns(clientId \<mapsto> pattern'))"

text \<open>
  The regular expressions of \<open>detectBot\<close> carry the flag \<open>i\<close>: each is a choice of words,
  looked for anywhere in the user agent without regard to the case of ASCII letters.
\<close>

definition to_lower_char :: "char \<Rightarrow> char" where
  "to_lower_char c =
     (let n = (of_char c :: nat)
      in if 65 \<le> n \<and> n \<le> 90 then ''abcdefghijklmnopqrstuvwxyz'' ! (n - 65) else c)"

definition botUserAgents :: "string list list" where
  "botUserAgents =
     [[''bot'', ''crawler'', ''spider'', ''scraper''],
      [''curl'', ''wget'', ''python'', ''java'', ''go-http''],
      [''headless'', ''phantom'', ''selenium'', ''webdriver''],
      [''postman'', ''insomnia'', ''httpie'']]"

definition regex_test :: "string list \<Rightarrow> string \<Rightarrow> bool" where
  "regex_test words userAgent = list_ex (\<lambda>w. str_includes (map to_lower_char userAgent) w) words"

definition detectBot :: "(string \<Rightarrow> string) \<Rightarrow> request \<Rightarrow> request_patterns \<Rightarrow> bool" where
  "detectBot sha256_hex req requestPatterns =
     (let userAgent = header_or_empty req ''user-agent'';
          clientId = getClientId sha256_hex req;
          pattern = requestPatterns clientId;
          essentialHeaders = [''accept'', ''accept-language'', ''accept-encoding''];
          missingHeaders = filter (\<lambda>header. \<not> truthy_str (req_headers req header)) essentialHeaders;
          accept = header_or_empty req ''accept''
      in if list_ex (\<lambda>regex. regex_test regex userAgent) botUserAgents then True
         else if length missingHeaders > 1 then True
         else if accept = ''*/*'' \<or> accept = [] then True
         else if (case pattern of None \<Rightarrow> False | Some p \<Rightarrow> pat_suspicionScore p > 70) then True
         else if \<not> truthy_str (req_headers req ''referer'') \<and> req_path req \<noteq> ''/'' \<and>
                 \<not> startsWith (req_path req) ''/api/'' then True
         else False)"

text \<open>\<open>isRequestTooFrequent\<close>, with \<open>now\<close> the value of its own call of \<open>Date.now()\<close>.\<close>

definition isRequestTooFrequent :: "int \<Rightarrow> string \<Rightarrow> request_patterns \<Rightarrow> bool" where
  "isRequestTooFrequent now clientId requestPatterns =
     (case requestPatterns clientId of
        None \<Rightarrow> False
      | Some pattern \<Rightarrow>
          (let recentRequests = filter (\<lambda>r. now - re_timestamp r < 60000) (pat_requests pattern)
           in length recentRequests > 30))"

definition validateBrowserHeaders :: "request \<Rightarrow> bool" where
  "validateBrowserHeaders req =
     (let userAgent = header_or_empty req ''user-agent'';
          accept = header_or_empty req ''accept'';
          acceptLanguage = header_or_empty req ''accept-language'';
          acceptEncoding = header_or_empty req ''accept-encoding''
      in if \<not> str_includes accept ''text/html'' \<and> \<not> startsWith (req_path req) ''/api/'' then False
         else if \<not> str_includes acceptEncoding ''gzip'' then False
         else if acceptLanguage = [] \<and> \<not> startsWith (req_path req) ''/api/'' then False
         else if length userAgent < 20 \<or> \<not> str_includes userAgent ''Mozilla'' then False
         else True)"

text \<open>
  \<open>handleSuspiciousActivity\<close>: the penalty of 20 on the score of the client's pattern. Its
  response is 429 for the reason \<open>high_frequency\<close> and 403 otherwise.
\<close>

definition handleSuspiciousActivity ::
  "(string \<Rightarrow> string) \<Rightarrow> request \<Rightarrow> request_patterns \<Rightarrow> request_patterns" where
  "handleSuspiciousActivity sha256_hex req requestPatterns =
     (let clientId = getClientId sha256_hex req in
      case requestPatterns clientId of
        None \<Rightarrow> requestPatterns
      | Some pattern \<Rightarrow>
          requestPatterns(clientId \<mapsto> pattern\<lparr>pat_suspicionScore := pat_suspicionScore pattern + 20\<rparr>))"

text \<open>
  What the middleware does with a request: it calls \<open>next()\<close> at once, answers 403
  \<open>BOT_DETECTED\<close>, answers 429, answers 403 \<open>SUSPICIOUS_ACTIVITY\<close>, or sets the security
  headers and calls \<open>next()\<close>.
\<close>

datatype scraping_outcome =
    Next_at_once
  | Bot_detected
  | Too_many_requests
  | Suspicious_activity
  | Next_with_security_headers

text \<open>
  The function that \<open>middleware()\<close> returns. It is synchronous. \<open>now\<close> is the clock as
  \<open>analyzeRequestPattern\<close> reads it, \<open>now'\<close> as \<open>isRequestTooFrequent\<close> reads it.
\<close>

definition middleware ::
  "(string \<Rightarrow> string) \<Rightarrow> int \<Rightarrow> int \<Rightarrow> request \<Rightarrow> request_patterns
     \<Rightarrow> scraping_outcome \<times> request_patterns" where
  "middleware sha256_hex now now' req requestPatterns =
     (let clientId = getClientId sha256_hex req in
      if startsWith (req_path req) ''/api/'' \<and> truthy_str (req_headers req ''authorization'')
      then (Next_at_once, requestPatterns)
      else
        (let analyzed = analyzeRequestPattern now req clientId requestPatterns in
         if detectBot sha256_hex req analyzed then (Bot_detected, analyzed)
         else if isRequestTooFrequent now' clientId analyzed
         then (Too_many_requests, handleSuspiciousActivity sha256_hex req analyzed)
         else if \<not> validateBrowserHeaders req
         then (Suspicious_activity, handleSuspiciousActivity sha256_hex req analyzed)
         else (Next_with_security_headers, analyzed)))"

text \<open>\<open>cleanup\<close>, called by a timer every ten minutes.\<close>

definition cleanup :: "int \<Rightarrow> request_patterns \<Rightarrow> request_patterns" where
  "cleanup now requestPatterns =
     (\<lambda>clientId.
        case requestPatterns clientId of
          None \<Rightarrow> None
        | Some pattern \<Rightarrow>
            (let kept = filter (\<lambda>r. now - re_timestamp r < 3600000) (pat_requests pattern)
             in if length kept = 0 then None else Some (pattern\<lparr>pat_requests := kept\<rparr>)))"

text \<open>
  The states of \<open>requestPatterns\<close> that the running server can reach: the map starts
  empty, and only the middleware and the cleanup timer change it.
\<close>

inductive reachable :: "request_patterns \<Rightarrow> bool" where
  initial: "reachable (\<lambda>clientId. None)"
| request: "reachable s \<Longrightarrow> reachable (snd (middleware sha256_hex now now' req s))"
| timer: "reachable s \<Longrightarrow> reachable (cleanup now s)"



text \<open>"Score is clamped to [0,100]": every stored suspicion score lies between 0 and 100.\<close>

definition score_bounded :: "request_patterns \<Rightarrow> bool" where
  "score_bounded s =
     (\<forall>clientId p. s clientId = Some p \<longrightarrow> 0 \<le> pat_suspicionScore p \<and> pat_suspicionScore p \<le> 100)"

section \<open>Example data\<close>

text \<open>A P-256 public key as the browser exports it, and the same key with its members in another order.\<close>

definition jwk_exported :: jsdata where
  "jwk_exported = Obj
     [(''crv'', Str ''P-256''), (''ext'', Bool True), (''kty'', Str ''EC''),
      (''x'', Str ''f83OJ3D2xF1Bg8vub9tLe1gHMzV76e8Tus9uPHvRVEU''),
      (''y'', Str ''x_FEzRu9m36HLN_tue659LNpXW6pCyStikYjKIWI5a0'')]"

definition jwk_reordered :: jsdata where
  "jwk_reordered = Obj
     [(''y'', Str ''x_FEzRu9m36HLN_tue659LNpXW6pCyStikYjKIWI5a0''),
      (''x'', Str ''f83OJ3D2xF1Bg8vub9tLe1gHMzV76e8Tus9uPHvRVEU''),
      (''kid'', Str ''device-1''), (''kty'', Str ''EC''), (''crv'', Str ''P-256'')]"

text \<open>
  A registered device: its stored key row, the claims of its bearer token, and the
  fingerprint taken at registration (Chrome 120) and after a browser update (Chrome 121).
\<close>

definition jwk_canonical_text :: string where
  \<open>jwk_canonical_text =
     ''{"crv":"P-256","kty":"EC","x":"f83OJ3D2xF1Bg8vub9tLe1gHMzV76e8Tus9uPHvRVEU","y":"x_FEzRu9m36HLN_tue659LNpXW6pCyStikYjKIWI5a0"}''\<close>

definition jwk_stored_text :: string where
  \<open>jwk_stored_text =
     ''{"crv":"P-256","ext":true,"kty":"EC","x":"f83OJ3D2xF1Bg8vub9tLe1gHMzV76e8Tus9uPHvRVEU","y":"x_FEzRu9m36HLN_tue659LNpXW6pCyStikYjKIWI5a0"}''\<close>

definition chrome_user_agent :: "string \<Rightarrow> string" where
  "chrome_user_agent chrome =
     ''Mozilla/5.0 (Windows NT 10.0; Win64; x64) AppleWebKit/537.36 (KHTML, like Gecko) Chrome/''
       @ chrome @ ''.0.0.0 Safari/537.36''"

definition fingerprint_at :: "string \<Rightarrow> jsdata" where
  "fingerprint_at chrome = Obj
     [(''ua'', Str (chrome_user_agent chrome)),
      (''lang'', Str ''en-US,en''), (''tz'', Str ''Europe/Berlin''), (''scr'', Str ''1920x1080@1''),
      (''hwc'', Num 8), (''mem'', Num 8), (''platform'', Str ''Win32''),
      (''webgl'', Str ''Google Inc.|ANGLE'')]"

definition fingerprint_121_text :: string where
  \<open>fingerprint_121_text =
     ''{"ua":"Mozilla/5.0 (Windows NT 10.0; Win64; x64) AppleWebKit/537.36 (KHTML, like Gecko) Chrome/121.0.0.0 Safari/537.36","lang":"en-US,en","tz":"Europe/Berlin","scr":"1920x1080@1","hwc":8,"mem":8,"platform":"Win32","webgl":"Google Inc.|ANGLE"}''\<close>

definition device_key_row :: device_key where
  "device_key_row =
     \<lparr>dk_public_key_jwk = jwk_stored_text, dk_fingerprint_hash = Some ''c429d087'',
      dk_last_ip = None, dk_username = ''alice'', dk_email = ''alice@example.org''\<rparr>"

definition bearer_claims :: token_claims where
  "bearer_claims =
     \<lparr>claim_sub = Str ''42'', claim_cnf_jkt = Str ''oKIywvGUpTVTyxMQ3bwIIeQUudfr_CkLMjCE19ECD-U'',
      claim_device_key_id = Num 7\<rparr>"

text \<open>
  Proofs for \<open>GET http://localhost:3001/api/crud/posts\<close>: the header
  \<open>{"alg":"ES256","typ":"dpop+jwt"}\<close> and a payload with the members \<open>htu\<close>, \<open>htm\<close>,
  \<open>iat\<close> and \<open>jti\<close>, each in base64url, and a signature part.
\<close>

definition dpop_header_b64 :: string where
  "dpop_header_b64 = ''eyJhbGciOiJFUzI1NiIsInR5cCI6ImRwb3Arand0In0''"

definition dpop_header_obj :: jsdata where
  "dpop_header_obj = Obj [(''alg'', Str ''ES256''), (''typ'', Str ''dpop+jwt'')]"

definition dpop_payload_obj :: "string \<Rightarrow> int \<Rightarrow> jsdata" where
  "dpop_payload_obj htm iat = Obj
     [(''htu'', Str ''http://localhost:3001/api/crud/posts''), (''htm'', Str htm),
      (''iat'', Num iat), (''jti'', Str ''0b6f3c1e-7a52-4c1d-9e55-2f1a8f2b6d10'')]"

text \<open>\<open>htm\<close> is \<open>GET\<close> and \<open>iat\<close> is 1700000000.\<close>

definition payload_b64 :: string where
  "payload_b64 = ''eyJodHUiOiJodHRwOi8vbG9jYWxob3N0OjMwMDEvYXBpL2NydWQvcG9zdHMiLCJodG0iOiJHRVQiLCJpYXQiOjE3MDAwMDAwMDAsImp0aSI6IjBiNmYzYzFlLTdhNTItNGMxZC05ZTU1LTJmMWE4ZjJiNmQxMCJ9''"

text \<open>\<open>htm\<close> is \<open>get\<close>, in lower case.\<close>

definition payload_lower_b64 :: string where
  "payload_lower_b64 = ''eyJodHUiOiJodHRwOi8vbG9jYWxob3N0OjMwMDEvYXBpL2NydWQvcG9zdHMiLCJodG0iOiJnZXQiLCJpYXQiOjE3MDAwMDAwMDAsImp0aSI6IjBiNmYzYzFlLTdhNTItNGMxZC05ZTU1LTJmMWE4ZjJiNmQxMCJ9''"

definition proof_token :: "string \<Rightarrow> string" where
  "proof_token payload = dpop_header_b64 @ ''.'' @ payload @ ''.'' @ ''c2lnbmF0dXJl''"

text \<open>
  A platform for these data. The decoder and the parser are given by their values on the
  texts above, the digest by its value on the canonical key; the clock stands 100 seconds
  after the proof was issued, and the signature of every proof verifies.
\<close>

definition dpop_header_text :: string where
  \<open>dpop_header_text = ''{"alg":"ES256","typ":"dpop+jwt"}''\<close>

definition payload_text :: string where
  \<open>payload_text =
     ''{"htu":"http://localhost:3001/api/crud/posts","htm":"GET","iat":1700000000,"jti":"0b6f3c1e-7a52-4c1d-9e55-2f1a8f2b6d10"}''\<close>

definition payload_lower_text :: string where
  \<open>payload_lower_text =
     ''{"htu":"http://localhost:3001/api/crud/posts","htm":"get","iat":1700000000,"jti":"0b6f3c1e-7a52-4c1d-9e55-2f1a8f2b6d10"}''\<close>

definition example_base64url_decode :: "string \<Rightarrow> string" where
  "example_base64url_decode b64 =
     (if b64 = dpop_header_b64 then dpop_header_text
      else if b64 = payload_b64 then payload_text
      else if b64 = payload_lower_b64 then payload_lower_text
      else [])"

definition example_json_parse :: "string \<Rightarrow> jsdata option" where
  "example_json_parse text =
     (if text = dpop_header_text then Some dpop_header_obj
      else if text = payload_text then Some (dpop_payload_obj ''GET'' 1700000000)
      else if text = payload_lower_text then Some (dpop_payload_obj ''get'' 1700000000)
      else if text = jwk_stored_text then Some jwk_exported
      else if text = fingerprint_121_text then Some (fingerprint_at ''121'')
      else None)"

definition example_platform :: platform where
  "example_platform =
     \<lparr>sha256_base64url =
        (\<lambda>text. if text = jwk_canonical_text then ''oKIywvGUpTVTyxMQ3bwIIeQUudfr_CkLMjCE19ECD-U'' else []),
      json_parse = example_json_parse,
      base64url_decode = example_base64url_decode,
      jose_verify = (\<lambda>token jwk. True),
      string_to_number = (\<lambda>s. None),
      jwt_verify_access = (\<lambda>token. if token = ''eyJhbGciOiJIUzI1NiJ9.e30.dG9rZW4'' then Some bearer_claims else None),
      db_get_device_key =
        (\<lambda>deviceKeyId sub. if deviceKeyId = Num 7 \<and> sub = Str ''42'' then Some (Some device_key_row) else Some None),
      db_run_ok = (\<lambda>stmt. True),
      env_NODE_ENV = Some ''production'',
      env_FINGERPRINT_TOLERANCE = None,
      env_STRICT_IP_VALIDATION = None,
      date_now = 1700000100000\<rparr>"

definition example_headers :: "string \<Rightarrow> string option \<Rightarrow> string \<Rightarrow> string option" where
  "example_headers dpop fingerprint name =
     (if name = ''authorization'' then Some ''Bearer eyJhbGciOiJIUzI1NiJ9.e30.dG9rZW4''
      else if name = ''dpop'' then Some dpop
      else if name = ''host'' then Some ''localhost:3001''
      else if name = ''x-fingerprint'' then fingerprint
      else None)"

definition example_request :: "string \<Rightarrow> string option \<Rightarrow> request" where
  "example_request dpop fingerprint =
     \<lparr>req_method = ''GET'', req_path = ''/api/crud/posts'', req_originalUrl = ''/api/crud/posts'',
      req_secure = False, req_headers = example_headers dpop fingerprint,
      req_remoteAddress = Some ''203.0.113.9'', req_ip = Some ''203.0.113.9'',
      req_securityContext_ip = Some ''203.0.113.9''\<rparr>"

definition example_verified :: verified where
  "example_verified =
     \<lparr>ver_deviceKey = device_key_row, ver_claims = bearer_claims,
      ver_dpop = \<lparr>dpop_jti = Str ''0b6f3c1e-7a52-4c1d-9e55-2f1a8f2b6d10'', dpop_iat = Num 1700000000\<rparr>\<rparr>"

text \<open>The two fingerprints as \<open>generateFingerprintHash\<close> serialises them, members sorted by name.\<close>

definition fingerprint_120_serialised_text :: string where
  \<open>fingerprint_120_serialised_text =
     ''{"hwc":8,"lang":"en-US,en","mem":8,"platform":"Win32","scr":"1920x1080@1","tz":"Europe/Berlin","ua":"Mozilla/5.0 (Windows NT 10.0; Win64; x64) AppleWebKit/537.36 (KHTML, like Gecko) Chrome/120.0.0.0 Safari/537.36","webgl":"Google Inc.|ANGLE"}''\<close>

definition fingerprint_121_serialised_text :: string where
  \<open>fingerprint_121_serialised_text =
     ''{"hwc":8,"lang":"en-US,en","mem":8,"platform":"Win32","scr":"1920x1080@1","tz":"Europe/Berlin","ua":"Mozilla/5.0 (Windows NT 10.0; Win64; x64) AppleWebKit/537.36 (KHTML, like Gecko) Chrome/121.0.0.0 Safari/537.36","webgl":"Google Inc.|ANGLE"}''\<close>

text \<open>
  Requests to the anti-scraping middleware: a browser with the usual headers, and a
  command-line client that calls the API with a bearer token. The digest is given by its value
  on the factors of these clients.
\<close>

definition browser_headers :: "string \<Rightarrow> string \<Rightarrow> string option" where
  "browser_headers encoding name =
     (if name = ''user-agent'' then Some (chrome_user_agent ''120'')
      else if name = ''accept'' then Some ''text/html,application/xhtml+xml''
      else if name = ''accept-language'' then Some ''en-US,en''
      else if name = ''accept-encoding'' then Some encoding
      else if name = ''referer'' then Some ''http://localhost:3001/''
      else None)"

definition page_request :: "string \<Rightarrow> string \<Rightarrow> request" where
  "page_request encoding path =
     \<lparr>req_method = ''GET'', req_path = path, req_originalUrl = path, req_secure = False,
      req_headers = browser_headers encoding,
      req_remoteAddress = Some ''203.0.113.9'', req_ip = Some ''203.0.113.9'',
      req_securityContext_ip = None\<rparr>"

definition curl_headers :: "string \<Rightarrow> string option" where
  "curl_headers name =
     (if name = ''user-agent'' then Some ''curl/8.4.0''
      else if name = ''authorization'' then Some ''Bearer eyJhbGciOiJIUzI1NiJ9.e30.dG9rZW4''
      else None)"

definition curl_api_request :: request where
  "curl_api_request =
     \<lparr>req_method = ''GET'', req_path = ''/api/crud/posts'', req_originalUrl = ''/api/crud/posts'',
      req_secure = False, req_headers = curl_headers,
      req_remoteAddress = Some ''203.0.113.9'', req_ip = Some ''203.0.113.9'',
      req_securityContext_ip = None\<rparr>"

definition example_sha256_hex :: "string \<Rightarrow> string" where
  "example_sha256_hex factors =
     (if factors = chrome_user_agent ''120'' @ ''|en-US,en|gzip, deflate, br|203.0.113.9''
      then ''4e298295109430910fd9c9cc90f6714d7cd9076264e0093b51a93695ae4b3d8a''
      else if factors = chrome_user_agent ''120'' @ ''|en-US,en|identity|203.0.113.9''
      then ''b20f7e508229a8a39694c8e5914333c7b2712b94c8fc2109fb0db1c58d7a8848''
      else if factors = ''curl/8.4.0|||203.0.113.9''
      then ''b81d5828505d3636216056588a5f2e07bf487d282358063aa6e2ae95f1b8446d''
      else [])"


text \<open>
  The state after one request of the browser that does not accept gzip: the request is
  answered 403 \<open>SUSPICIOUS_ACTIVITY\<close> and the client's score carries the penalty.
\<close>

definition penalised_state :: request_patterns where
  "penalised_state =
     snd (middleware example_sha256_hex 1700000000000 1700000000000
            (page_request ''identity'' ''/'') (\<lambda>clientId. None))"







section \<open>Properties of the key thumbprint\<close>

text \<open>
  C8. The thumbprint of a public key depends on nothing but what the four reads \<open>jwk.crv\<close>,
  \<open>jwk.kty\<close>, \<open>jwk.x\<close> and \<open>jwk.y\<close> yield: two representations that agree on these members
  have the same thumbprint, whatever other members they carry and in whatever order their
  members are listed. (Taking both representations equal: computing it again gives the same
  value.)
\<close>

theorem generateKeyThumbprint_canonical:
  assumes "get_prop j1 ''crv'' = get_prop j2 ''crv''"
    and "get_prop j1 ''kty'' = get_prop j2 ''kty''"
    and "get_prop j1 ''x'' = get_prop j2 ''x''"
    and "get_prop j1 ''y'' = get_prop j2 ''y''"
  shows "generateKeyThumbprint H j1 = generateKeyThumbprint H j2"
  using assms by (simp add: generateKeyThumbprint_def)

theorem generateKeyThumbprint_canonical_witness:
  "get_prop jwk_exported ''crv'' = get_prop jwk_reordered ''crv'' \<and>
   get_prop jwk_exported ''kty'' = get_prop jwk_reordered ''kty'' \<and>
   get_prop jwk_exported ''x'' = get_prop jwk_reordered ''x'' \<and>
   get_prop jwk_exported ''y'' = get_prop jwk_reordered ''y'' \<and>
   jwk_exported \<noteq> jwk_reordered \<and>
   (\<forall>H. generateKeyThumbprint H jwk_exported = generateKeyThumbprint H jwk_reordered)"
proof -
  have c: "get_prop jwk_exported ''crv'' = get_prop jwk_reordered ''crv''"
    and k: "get_prop jwk_exported ''kty'' = get_prop jwk_reordered ''kty''"
    and x: "get_prop jwk_exported ''x'' = get_prop jwk_reordered ''x''"
    and y: "get_prop jwk_exported ''y'' = get_prop jwk_reordered ''y''"
    by (simp_all add: jwk_exported_def jwk_reordered_def)
  have d: "jwk_exported \<noteq> jwk_reordered"
    by (simp add: jwk_exported_def jwk_reordered_def)
  from generateKeyThumbprint_canonical [OF c k x y] c k x y d show ?thesis
    by blast
qed

section \<open>Evaluating the example\<close>

lemma example_thumbprint:
  "generateKeyThumbprint (sha256_base64url example_platform) jwk_exported =
     Inr ''oKIywvGUpTVTyxMQ3bwIIeQUudfr_CkLMjCE19ECD-U''"
  by (simp add: generateKeyThumbprint_def jwk_exported_def example_platform_def stringify_obj_def
      json_quote_def json_escape_def jwk_canonical_text_def)

lemma example_decode:
  "dpop_decode example_platform (proof_token payload_b64) =
     Inr (dpop_header_obj, dpop_payload_obj ''GET'' 1700000000)"
  by (simp add: dpop_decode_def proof_token_def dpop_header_b64_def payload_b64_def
      example_platform_def example_json_parse_def example_base64url_decode_def
      dpop_header_text_def payload_text_def)

lemma example_verifyDPoP:
  "verifyDPoP example_platform (proof_token payload_b64) ''GET''
     ''http://localhost:3001/api/crud/posts'' jwk_exported =
   Inr \<lparr>dpop_jti = Str ''0b6f3c1e-7a52-4c1d-9e55-2f1a8f2b6d10'', dpop_iat = Num 1700000000\<rparr>"
  unfolding verifyDPoP_def example_decode
  by (simp add: dpop_check_def dpop_header_obj_def dpop_payload_obj_def timestamp_invalid_def
      example_platform_def toUpperCase_def to_upper_char_def)

section \<open>Computing the fingerprint hash\<close>

lemma fnv_round_mult: "fnv_round h c = (h XOR of_char c) * 16777619"
  by (simp add: fnv_round_def Let_def push_bit_eq_mult algebra_simps)

lemma unat_of_char_word: "unat (of_char c :: 32 word) = of_char c"
proof -
  have "(of_char c :: 32 word) = of_nat (of_char c)"
    by (simp add: of_nat_of_char)
  moreover have "(of_char c :: nat) < 2 ^ LENGTH(32)"
    by (rule less_trans [OF nat_of_char_less_256]) simp
  ultimately show ?thesis
    by (simp add: unat_of_nat)
qed

lemma unat_fnv_round: "unat (fnv_round h c) = fnv_round_nat (unat h) c"
  by (simp add: fnv_round_mult fnv_round_nat_def unat_word_ariths unsigned_xor_eq unat_of_char_word)

lemma unat_foldl_fnv_round: "unat (foldl fnv_round h s) = foldl fnv_round_nat (unat h) s"
  by (induction s arbitrary: h) (simp_all add: unat_fnv_round)

lemma unat_fnv_hash: "unat (fnv_hash s) = foldl fnv_round_nat 2166136261 s"
  by (simp add: fnv_hash_def unat_foldl_fnv_round)

lemma sorted_fingerprint_keys:
  "sort_strings (map fst (normalize_fingerprint field)) =
     [''hwc'', ''lang'', ''mem'', ''platform'', ''scr'', ''tz'', ''ua'', ''webgl'']"
  by (simp add: sort_strings_def normalize_fingerprint_def)

lemma fingerprint_120_serialised:
  "stringify_with [''hwc'', ''lang'', ''mem'', ''platform'', ''scr'', ''tz'', ''ua'', ''webgl'']
     (normalize_fingerprint (\<lambda>k. case get_prop (fingerprint_at ''120'') k of None \<Rightarrow> Undefined | Some v \<Rightarrow> v)) =
   fingerprint_120_serialised_text"
  by (simp add: stringify_with_def normalize_fingerprint_def fingerprint_at_def chrome_user_agent_def js_or_def
      stringify_obj_def json_quote_def json_escape_def show_int_def show_nat.simps digit_char_def
      fingerprint_120_serialised_text_def)

lemma fingerprint_121_serialised:
  "stringify_with [''hwc'', ''lang'', ''mem'', ''platform'', ''scr'', ''tz'', ''ua'', ''webgl'']
     (normalize_fingerprint (\<lambda>k. case get_prop (fingerprint_at ''121'') k of None \<Rightarrow> Undefined | Some v \<Rightarrow> v)) =
   fingerprint_121_serialised_text"
  by (simp add: stringify_with_def normalize_fingerprint_def fingerprint_at_def chrome_user_agent_def js_or_def
      stringify_obj_def json_quote_def json_escape_def show_int_def show_nat.simps digit_char_def
      fingerprint_121_serialised_text_def)

lemma fnv_120: "foldl fnv_round_nat 2166136261 fingerprint_120_serialised_text = 3291074695"
  by (simp add: fnv_round_nat_def fingerprint_120_serialised_text_def)

lemma fnv_121: "foldl fnv_round_nat 2166136261 fingerprint_121_serialised_text = 3269986604"
  by (simp add: fnv_round_nat_def fingerprint_121_serialised_text_def)

lemma hash_fingerprint_120: "generateFingerprintHash (fingerprint_at ''120'') = Some ''c429d087''"
proof -
  have obj: "is_object (fingerprint_at ''120'')" "\<not> falsy_data (fingerprint_at ''120'')"
    by (simp_all add: fingerprint_at_def)
  have "generateFingerprintHash (fingerprint_at ''120'') =
          Some (show_hex (unat (fnv_hash fingerprint_120_serialised_text)))"
    using obj
    by (simp add: generateFingerprintHash_def Let_def sorted_fingerprint_keys fingerprint_120_serialised)
  also have "unat (fnv_hash fingerprint_120_serialised_text) = 3291074695"
    by (simp only: unat_fnv_hash fnv_120)
  also have "show_hex 3291074695 = ''c429d087''"
    by (simp add: show_hex.simps hex_char_def)
  finally show ?thesis .
qed

lemma hash_fingerprint_121: "generateFingerprintHash (fingerprint_at ''121'') = Some ''c2e8092c''"
proof -
  have obj: "is_object (fingerprint_at ''121'')" "\<not> falsy_data (fingerprint_at ''121'')"
    by (simp_all add: fingerprint_at_def)
  have "generateFingerprintHash (fingerprint_at ''121'') =
          Some (show_hex (unat (fnv_hash fingerprint_121_serialised_text)))"
    using obj
    by (simp add: generateFingerprintHash_def Let_def sorted_fingerprint_keys fingerprint_121_serialised)
  also have "unat (fnv_hash fingerprint_121_serialised_text) = 3269986604"
    by (simp only: unat_fnv_hash fnv_121)
  also have "show_hex 3269986604 = ''c2e8092c''"
    by (simp add: show_hex.simps hex_char_def)
  finally show ?thesis .
qed

section \<open>The replay check\<close>

lemma authenticate_bind_replay:
  "dpop_jti (ver_dpop v) \<in> c \<Longrightarrow>
     authenticate_bind env req v c = (Unauthorized DPoP_proof_replay_detected, c)"
  by (simp add: authenticate_bind_def Let_def)

lemma authenticate_bind_records:
  "dpop_jti (ver_dpop v) \<notin> c \<Longrightarrow>
     snd (authenticate_bind env req v c) = insert (dpop_jti (ver_dpop v)) c"
  by (simp add: authenticate_bind_def Let_def)

lemma authenticate_bind_passes:
  "dpop_jti (ver_dpop v) \<notin> c \<Longrightarrow>
     fst (authenticate_bind env req v c) \<noteq> Unauthorized DPoP_proof_replay_detected"
  by (simp add: authenticate_bind_def Let_def)

lemma authenticateToken_cache_grows: "c \<subseteq> snd (authenticateToken env req c)"
proof (cases "authenticate_verify env req")
  case (Inl response)
  then show ?thesis by (simp add: authenticateToken_def)
next
  case (Inr v)
  show ?thesis
  proof (cases "dpop_jti (ver_dpop v) \<in> c")
    case True
    with Inr show ?thesis by (simp add: authenticateToken_def authenticate_bind_replay)
  next
    case False
    with Inr show ?thesis by (auto simp add: authenticateToken_def authenticate_bind_records)
  qed
qed

lemma run_events_keeps:
  "j \<in> c \<Longrightarrow> Timer \<notin> set events \<Longrightarrow> j \<in> run_events events c"
proof (induction events arbitrary: c)
  case Nil
  then show ?case by simp
next
  case (Cons e events)
  show ?case
  proof (cases e)
    case (Request env req)
    have "j \<in> snd (authenticateToken env req c)"
      using Cons.prems(1) authenticateToken_cache_grows by blast
    with Cons Request show ?thesis by simp
  next
    case Timer
    with Cons.prems show ?thesis by simp
  qed
qed

lemma authenticateToken_replay:
  assumes "authenticate_verify env req = Inr v" and "dpop_jti (ver_dpop v) \<in> c"
  shows "authenticateToken env req c = (Unauthorized DPoP_proof_replay_detected, c)"
  using assms by (simp add: authenticateToken_def authenticate_bind_replay)

lemma authenticateToken_records:
  assumes "authenticate_verify env req = Inr v" and "dpop_jti (ver_dpop v) \<notin> c"
  shows "snd (authenticateToken env req c) = insert (dpop_jti (ver_dpop v)) c"
    and "fst (authenticateToken env req c) \<noteq> Unauthorized DPoP_proof_replay_detected"
  using assms by (simp_all add: authenticateToken_def authenticate_bind_records authenticate_bind_passes)

lemma example_authenticate_verify:
  "authenticate_verify example_platform (example_request (proof_token payload_b64) fingerprint) =
     Inr example_verified"
proof -
  have parse: "json_parse example_platform jwk_stored_text = Some jwk_exported"
    by (simp add: example_platform_def example_json_parse_def jwk_stored_text_def
        dpop_header_text_def payload_text_def payload_lower_text_def)
  have url: "fullUrl (example_request (proof_token payload_b64) fingerprint) =
      ''http://localhost:3001/api/crud/posts''"
    by (simp add: fullUrl_def example_request_def example_headers_def)
  have hdrs: "req_headers (example_request (proof_token payload_b64) fingerprint) ''authorization'' =
        Some ''Bearer eyJhbGciOiJIUzI1NiJ9.e30.dG9rZW4''"
      "req_headers (example_request (proof_token payload_b64) fingerprint) ''dpop'' =
        Some (proof_token payload_b64)"
      "req_method (example_request (proof_token payload_b64) fingerprint) = ''GET''"
    by (simp_all add: example_request_def example_headers_def)
  have tok: "proof_token payload_b64 \<noteq> []"
    by (simp add: proof_token_def)
  have access: "jwt_verify_access example_platform ''eyJhbGciOiJIUzI1NiJ9.e30.dG9rZW4'' = Some bearer_claims"
      "db_get_device_key example_platform (Num 7) (Str ''42'') = Some (Some device_key_row)"
    by (simp_all add: example_platform_def)
  show ?thesis
    unfolding authenticate_verify_def hdrs
    by (simp add: truthy_str_def tok access bearer_claims_def device_key_row_def parse
        example_thumbprint url hdrs example_verifyDPoP example_verified_def)
qed

text \<open>
  C1. Let a request pass the verification of its proof, with the string \<open>jti\<close> as the
  proof's identifier. If \<open>jti\<close> is not in the cache, the replay check lets the request pass
  and the cache afterwards is the old cache with \<open>jti\<close> added. Any request whose proof
  verifies with the same identifier, at any later time and in any state of the cache that
  still holds \<open>jti\<close>, is answered 401 \<open>DPoP proof replay detected\<close> and leaves the cache as
  it is. The identifier stays in the cache through every sequence of later requests; only the
  timer can remove it.
\<close>

theorem replay_check_accepts_once:
  assumes "authenticate_verify env req = Inr v" and "dpop_jti (ver_dpop v) = Str jti"
  shows "(Str jti \<notin> jtiCache \<longrightarrow>
            fst (authenticateToken env req jtiCache) \<noteq> Unauthorized DPoP_proof_replay_detected \<and>
            snd (authenticateToken env req jtiCache) = insert (Str jti) jtiCache) \<and>
         (\<forall>env' req' v' cache'.
            authenticate_verify env' req' = Inr v' \<and> dpop_jti (ver_dpop v') = Str jti \<and>
            Str jti \<in> cache' \<longrightarrow>
            authenticateToken env' req' cache' = (Unauthorized DPoP_proof_replay_detected, cache')) \<and>
         (\<forall>events. Timer \<notin> set events \<longrightarrow>
            Str jti \<in> run_events events (snd (authenticateToken env req jtiCache)))"
proof (intro conjI allI impI)
  assume fresh: "Str jti \<notin> jtiCache"
  with assms show "fst (authenticateToken env req jtiCache) \<noteq> Unauthorized DPoP_proof_replay_detected"
    by (simp add: authenticateToken_records)
  from fresh assms show "snd (authenticateToken env req jtiCache) = insert (Str jti) jtiCache"
    by (simp add: authenticateToken_records)
next
  fix env' req' v' cache'
  assume "authenticate_verify env' req' = Inr v' \<and> dpop_jti (ver_dpop v') = Str jti \<and> Str jti \<in> cache'"
  then show "authenticateToken env' req' cache' = (Unauthorized DPoP_proof_replay_detected, cache')"
    by (simp add: authenticateToken_replay)
next
  fix events
  assume no_timer: "Timer \<notin> set events"
  have "Str jti \<in> snd (authenticateToken env req jtiCache)"
  proof (cases "Str jti \<in> jtiCache")
    case True
    then show ?thesis using authenticateToken_cache_grows by blast
  next
    case False
    with assms show ?thesis by (simp add: authenticateToken_records)
  qed
  then show "Str jti \<in> run_events events (snd (authenticateToken env req jtiCache))"
    using no_timer by (rule run_events_keeps)
qed

theorem replay_check_accepts_once_witness:
  "authenticate_verify example_platform (example_request (proof_token payload_b64) None) = Inr example_verified \<and>
   dpop_jti (ver_dpop example_verified) = Str ''0b6f3c1e-7a52-4c1d-9e55-2f1a8f2b6d10'' \<and>
   Str ''0b6f3c1e-7a52-4c1d-9e55-2f1a8f2b6d10'' \<notin> {} \<and>
   fst (authenticateToken example_platform (example_request (proof_token payload_b64) None) {})
     \<noteq> Unauthorized DPoP_proof_replay_detected \<and>
   snd (authenticateToken example_platform (example_request (proof_token payload_b64) None) {})
     = {Str ''0b6f3c1e-7a52-4c1d-9e55-2f1a8f2b6d10''} \<and>
   authenticateToken example_platform (example_request (proof_token payload_b64) None)
       {Str ''0b6f3c1e-7a52-4c1d-9e55-2f1a8f2b6d10''}
     = (Unauthorized DPoP_proof_replay_detected, {Str ''0b6f3c1e-7a52-4c1d-9e55-2f1a8f2b6d10''}) \<and>
   Timer \<notin> set [Request example_platform (example_request (proof_token payload_b64) None)] \<and>
   Str ''0b6f3c1e-7a52-4c1d-9e55-2f1a8f2b6d10'' \<in>
     run_events [Request example_platform (example_request (proof_token payload_b64) None)]
       (snd (authenticateToken example_platform (example_request (proof_token payload_b64) None) {}))"
proof -
  let ?req = "example_request (proof_token payload_b64) None"
  let ?j = "''0b6f3c1e-7a52-4c1d-9e55-2f1a8f2b6d10''"
  have v: "authenticate_verify example_platform ?req = Inr example_verified"
    by (rule example_authenticate_verify)
  have j: "dpop_jti (ver_dpop example_verified) = Str ?j"
    by (simp add: example_verified_def)
  have e: "Str ?j \<notin> ({} :: jsval set)" "Str ?j \<in> {Str ?j}" "Timer \<notin> set [Request example_platform ?req]"
    by simp_all
  note inst = replay_check_accepts_once [OF v j, of "{}"]
  from inst e(1) have a: "fst (authenticateToken example_platform ?req {}) \<noteq> Unauthorized DPoP_proof_replay_detected"
      "snd (authenticateToken example_platform ?req {}) = {Str ?j}"
    by blast+
  from inst v j e(2) have b: "authenticateToken example_platform ?req {Str ?j}
      = (Unauthorized DPoP_proof_replay_detected, {Str ?j})"
    by blast
  from inst e(3) have c: "Str ?j \<in> run_events [Request example_platform ?req]
      (snd (authenticateToken example_platform ?req {}))"
    by blast
  from v j e a b c show ?thesis by blast
qed


lemma example_compare_mismatch:
  "\<not> compareFingerprints example_platform (Some ''c429d087'') (Some fingerprint_121_text) t"
proof -
  have "json_parse example_platform fingerprint_121_text = Some (fingerprint_at ''121'')"
    by (simp add: example_platform_def example_json_parse_def fingerprint_121_text_def
        dpop_header_text_def payload_text_def payload_lower_text_def
        jwk_stored_text_def)
  moreover have "fingerprint_121_text \<noteq> []"
    by (simp add: fingerprint_121_text_def)
  ultimately show ?thesis
    by (simp add: compareFingerprints_def truthy_str_def hash_fingerprint_121)
qed

lemma authenticateToken_production_mismatch:
  assumes "authenticate_verify env req = Inr v" and "dpop_jti (ver_dpop v) \<notin> jtiCache"
    and "truthy_str (dk_fingerprint_hash (ver_deviceKey v))"
    and "truthy_str (req_headers req ''x-fingerprint'')"
    and "\<not> compareFingerprints env (dk_fingerprint_hash (ver_deviceKey v))
               (req_headers req ''x-fingerprint'') (fingerprint_tolerance env)"
    and "env_NODE_ENV env = Some ''production''"
  shows "authenticateToken env req jtiCache =
      (Unauthorized Device_verification_failed, insert (dpop_jti (ver_dpop v)) jtiCache)"
  using assms by (simp add: authenticateToken_def authenticate_bind_def Let_def)








section \<open>The checks of the proof verifier\<close>

lemma get_prop_total:
  "get_prop d k = Some v \<Longrightarrow> \<exists>w. get_prop d k' = Some w"
  by (cases "(d, k')" rule: get_prop.cases) auto

lemma example_decode_lower:
  "dpop_decode example_platform (proof_token payload_lower_b64) =
     Inr (dpop_header_obj, dpop_payload_obj ''get'' 1700000000)"
  by (simp add: dpop_decode_def proof_token_def dpop_header_b64_def payload_lower_b64_def
      payload_b64_def example_platform_def example_json_parse_def example_base64url_decode_def
      dpop_header_text_def payload_text_def payload_lower_text_def)

text \<open>
  C4, as the specification states it, fails: a proof that claims the method \<open>get\<close> is
  rejected with \<open>DPoP method mismatch\<close> on a \<open>GET\<close> request, although the two methods are
  equal up to case.
\<close>

theorem method_case_insensitive_counterexample:
  "equal_ignoring_case ''get'' ''GET'' \<and>
   dpop_decode example_platform (proof_token payload_lower_b64) =
     Inr (dpop_header_obj, dpop_payload_obj ''get'' 1700000000) \<and>
   get_prop (dpop_payload_obj ''get'' 1700000000) ''htm'' = Some (Str ''get'') \<and>
   verifyDPoP example_platform (proof_token payload_lower_b64) ''GET''
     ''http://localhost:3001/api/crud/posts'' jwk_exported = Inl DPoP_method_mismatch"
proof -
  have "equal_ignoring_case ''get'' ''GET''"
    by (simp add: equal_ignoring_case_def toUpperCase_def to_upper_char_def)
  moreover have "get_prop (dpop_payload_obj ''get'' 1700000000) ''htm'' = Some (Str ''get'')"
    by (simp add: dpop_payload_obj_def)
  moreover have "verifyDPoP example_platform (proof_token payload_lower_b64) ''GET''
     ''http://localhost:3001/api/crud/posts'' jwk_exported = Inl DPoP_method_mismatch"
    unfolding verifyDPoP_def example_decode_lower
    by (simp add: dpop_check_def dpop_header_obj_def dpop_payload_obj_def
        toUpperCase_def to_upper_char_def)
  ultimately show ?thesis
    using example_decode_lower by blast
qed

text \<open>
  C4, amended. Where the proof decodes and its header is accepted, so that the check of the
  method is reached, the verifier fails with \<open>DPoP method mismatch\<close> exactly when the
  \<open>htm\<close> member of the proof is not the string \<open>method.toUpperCase()\<close>: the method of the
  request is put in upper case, the method claimed by the proof is taken as it is.
\<close>

theorem method_check_exact:
  assumes "dpop_decode env dpopHeader = Inr (header, payload)"
    and "get_prop header ''alg'' = Some (Str ''ES256'')"
    and "get_prop header ''typ'' = Some (Str ''dpop+jwt'')"
    and "get_prop payload ''htm'' = Some htm"
  shows "verifyDPoP env dpopHeader method url publicKeyJwk = Inl DPoP_method_mismatch
           \<longleftrightarrow> htm \<noteq> Str (toUpperCase method)"
proof -
  obtain htu iat jti where rest: "get_prop payload ''htu'' = Some htu"
      "get_prop payload ''iat'' = Some iat" "get_prop payload ''jti'' = Some jti"
    using get_prop_total [OF assms(4)] by metis
  show ?thesis
    using assms rest by (simp add: verifyDPoP_def dpop_check_def)
qed

theorem method_check_exact_witness:
  "dpop_decode example_platform (proof_token payload_b64) =
     Inr (dpop_header_obj, dpop_payload_obj ''GET'' 1700000000) \<and>
   get_prop dpop_header_obj ''alg'' = Some (Str ''ES256'') \<and>
   get_prop dpop_header_obj ''typ'' = Some (Str ''dpop+jwt'') \<and>
   get_prop (dpop_payload_obj ''GET'' 1700000000) ''htm'' = Some (Str ''GET'') \<and>
   Str ''GET'' = Str (toUpperCase ''get'') \<and>
   verifyDPoP example_platform (proof_token payload_b64) ''get''
     ''http://localhost:3001/api/crud/posts'' jwk_exported \<noteq> Inl DPoP_method_mismatch"
proof -
  have h: "get_prop dpop_header_obj ''alg'' = Some (Str ''ES256'')"
      "get_prop dpop_header_obj ''typ'' = Some (Str ''dpop+jwt'')"
    by (simp_all add: dpop_header_obj_def)
  have m: "get_prop (dpop_payload_obj ''GET'' 1700000000) ''htm'' = Some (Str ''GET'')"
    by (simp add: dpop_payload_obj_def)
  have u: "Str ''GET'' = Str (toUpperCase ''get'')"
    by (simp add: toUpperCase_def to_upper_char_def)
  from method_check_exact [OF example_decode h m, of "''get''"] u
  have "verifyDPoP example_platform (proof_token payload_b64) ''get''
     ''http://localhost:3001/api/crud/posts'' jwk_exported \<noteq> Inl DPoP_method_mismatch"
    by blast
  with example_decode h m u show ?thesis by blast
qed

text \<open>
  The check of the timestamp on a decoded proof with a numeric \<open>iat\<close>, where \<open>now\<close> is
  \<open>Math.floor(Date.now() / 1000)\<close>: the test is
  \<open>!payload.iat || Math.abs(now - payload.iat) > 300\<close>.
\<close>

lemma timestamp_check:
  assumes "dpop_decode env dpopHeader = Inr (header, payload)"
    and "get_prop payload ''iat'' = Some (Num iat)"
  shows "(\<bar>date_now env div 1000 - iat\<bar> > 300 \<longrightarrow>
            (\<exists>e. verifyDPoP env dpopHeader method url publicKeyJwk = Inl e)) \<and>
         (other_checks_pass env dpopHeader method url publicKeyJwk header payload \<longrightarrow>
            verifyDPoP env dpopHeader method url publicKeyJwk =
              (if iat \<noteq> 0 \<and> \<bar>date_now env div 1000 - iat\<bar> \<le> 300
               then Inr \<lparr>dpop_jti = the (get_prop payload ''jti''), dpop_iat = Num iat\<rparr>
               else Inl DPoP_timestamp_invalid))"
proof (intro conjI impI)
  assume far: "\<bar>date_now env div 1000 - iat\<bar> > 300"
  obtain htm htu jti where rest: "get_prop payload ''htm'' = Some htm"
      "get_prop payload ''htu'' = Some htu" "get_prop payload ''jti'' = Some jti"
    using get_prop_total [OF assms(2)] by metis
  have inv: "timestamp_invalid env (Num iat)"
    using far by (simp add: timestamp_invalid_def)
  show "\<exists>e. verifyDPoP env dpopHeader method url publicKeyJwk = Inl e"
    using assms rest inv
    by (auto simp add: verifyDPoP_def dpop_check_def split: option.splits)
next
  assume ok: "other_checks_pass env dpopHeader method url publicKeyJwk header payload"
  then obtain jti where jti: "get_prop payload ''jti'' = Some jti" "\<not> falsy jti"
    by (auto simp add: other_checks_pass_def split: option.splits)
  have inv: "timestamp_invalid env (Num iat) \<longleftrightarrow> \<not> (iat \<noteq> 0 \<and> \<bar>date_now env div 1000 - iat\<bar> \<le> 300)"
    by (auto simp add: timestamp_invalid_def)
  show "verifyDPoP env dpopHeader method url publicKeyJwk =
      (if iat \<noteq> 0 \<and> \<bar>date_now env div 1000 - iat\<bar> \<le> 300
       then Inr \<lparr>dpop_jti = the (get_prop payload ''jti''), dpop_iat = Num iat\<rparr>
       else Inl DPoP_timestamp_invalid)"
    using assms ok jti inv
    by (simp add: verifyDPoP_def dpop_check_def other_checks_pass_def)
qed

lemma dpop_decode_clock: "dpop_decode (env\<lparr>date_now := t\<rparr>) dpopHeader = dpop_decode env dpopHeader"
  by (simp add: dpop_decode_def cong: list.case_cong option.case_cong if_cong)

text \<open>
  C3. Let the proof decode, with the number \<open>iat\<close> as its issuance time, and let \<open>now\<close>
  be the verification time \<open>Math.floor(Date.now() / 1000)\<close>, on a server whose clock reads
  1 January 1970, 00:05:01 UTC or later. If \<open>iat\<close> differs from \<open>now\<close> by more than 300
  seconds, in either direction, the proof is rejected. If every other check passes, the proof
  is rejected with \<open>DPoP timestamp invalid\<close> when \<open>iat\<close> differs by more than 300 seconds,
  and is accepted when it differs by at most 300 seconds; in particular when it differs by
  exactly 300 seconds.
\<close>

theorem timestamp_window_inclusive:
  assumes "dpop_decode env dpopHeader = Inr (header, payload)"
    and "get_prop payload ''iat'' = Some (Num iat)"
    and "301000 \<le> date_now env"
  shows "(\<bar>date_now env div 1000 - iat\<bar> > 300 \<longrightarrow>
            (\<exists>e. verifyDPoP env dpopHeader method url publicKeyJwk = Inl e)) \<and>
         (other_checks_pass env dpopHeader method url publicKeyJwk header payload \<longrightarrow>
            verifyDPoP env dpopHeader method url publicKeyJwk =
              (if \<bar>date_now env div 1000 - iat\<bar> \<le> 300
               then Inr \<lparr>dpop_jti = the (get_prop payload ''jti''), dpop_iat = Num iat\<rparr>
               else Inl DPoP_timestamp_invalid)) \<and>
         (other_checks_pass env dpopHeader method url publicKeyJwk header payload \<and>
          \<bar>date_now env div 1000 - iat\<bar> = 300 \<longrightarrow>
            verifyDPoP env dpopHeader method url publicKeyJwk =
              Inr \<lparr>dpop_jti = the (get_prop payload ''jti''), dpop_iat = Num iat\<rparr>)"
proof -
  have now: "301 \<le> date_now env div 1000"
    using assms(3) by simp
  have nz: "iat \<noteq> 0" if "\<bar>date_now env div 1000 - iat\<bar> \<le> 300"
    using that now by auto
  note general = timestamp_check [OF assms(1,2), of "method" "url" "publicKeyJwk"]
  have window: "verifyDPoP env dpopHeader method url publicKeyJwk =
      (if \<bar>date_now env div 1000 - iat\<bar> \<le> 300
       then Inr \<lparr>dpop_jti = the (get_prop payload ''jti''), dpop_iat = Num iat\<rparr>
       else Inl DPoP_timestamp_invalid)"
    if "other_checks_pass env dpopHeader method url publicKeyJwk header payload"
    using general that nz by auto
  show ?thesis
  proof (intro conjI impI)
    assume "\<bar>date_now env div 1000 - iat\<bar> > 300"
    with general show "\<exists>e. verifyDPoP env dpopHeader method url publicKeyJwk = Inl e"
      by blast
  next
    assume "other_checks_pass env dpopHeader method url publicKeyJwk header payload"
    then show "verifyDPoP env dpopHeader method url publicKeyJwk =
        (if \<bar>date_now env div 1000 - iat\<bar> \<le> 300
         then Inr \<lparr>dpop_jti = the (get_prop payload ''jti''), dpop_iat = Num iat\<rparr>
         else Inl DPoP_timestamp_invalid)"
      by (rule window)
  next
    assume "other_checks_pass env dpopHeader method url publicKeyJwk header payload \<and>
        \<bar>date_now env div 1000 - iat\<bar> = 300"
    then show "verifyDPoP env dpopHeader method url publicKeyJwk =
        Inr \<lparr>dpop_jti = the (get_prop payload ''jti''), dpop_iat = Num iat\<rparr>"
      using window by simp
  qed
qed

theorem timestamp_window_inclusive_witness:
  "dpop_decode (example_platform\<lparr>date_now := 1700000300999\<rparr>) (proof_token payload_b64) =
     Inr (dpop_header_obj, dpop_payload_obj ''GET'' 1700000000) \<and>
   get_prop (dpop_payload_obj ''GET'' 1700000000) ''iat'' = Some (Num 1700000000) \<and>
   301000 \<le> date_now (example_platform\<lparr>date_now := 1700000300999\<rparr>) \<and>
   other_checks_pass (example_platform\<lparr>date_now := 1700000300999\<rparr>) (proof_token payload_b64) ''GET''
     ''http://localhost:3001/api/crud/posts'' jwk_exported dpop_header_obj
     (dpop_payload_obj ''GET'' 1700000000) \<and>
   \<bar>date_now (example_platform\<lparr>date_now := 1700000300999\<rparr>) div 1000 - 1700000000\<bar> = 300 \<and>
   verifyDPoP (example_platform\<lparr>date_now := 1700000300999\<rparr>) (proof_token payload_b64) ''GET''
     ''http://localhost:3001/api/crud/posts'' jwk_exported =
     Inr \<lparr>dpop_jti = Str ''0b6f3c1e-7a52-4c1d-9e55-2f1a8f2b6d10'', dpop_iat = Num 1700000000\<rparr> \<and>
   dpop_decode (example_platform\<lparr>date_now := 1700000301000\<rparr>) (proof_token payload_b64) =
     Inr (dpop_header_obj, dpop_payload_obj ''GET'' 1700000000) \<and>
   301000 \<le> date_now (example_platform\<lparr>date_now := 1700000301000\<rparr>) \<and>
   \<bar>date_now (example_platform\<lparr>date_now := 1700000301000\<rparr>) div 1000 - 1700000000\<bar> > 300 \<and>
   (\<exists>e. verifyDPoP (example_platform\<lparr>date_now := 1700000301000\<rparr>) (proof_token payload_b64) ''GET''
     ''http://localhost:3001/api/crud/posts'' jwk_exported = Inl e)"
proof -
  let ?at = "example_platform\<lparr>date_now := 1700000300999\<rparr>"
  let ?late = "example_platform\<lparr>date_now := 1700000301000\<rparr>"
  let ?payload = "dpop_payload_obj ''GET'' 1700000000"
  have d1: "dpop_decode ?at (proof_token payload_b64) = Inr (dpop_header_obj, ?payload)"
    and d2: "dpop_decode ?late (proof_token payload_b64) = Inr (dpop_header_obj, ?payload)"
    by (simp_all only: dpop_decode_clock example_decode)
  have i: "get_prop ?payload ''iat'' = Some (Num 1700000000)"
    and j: "the (get_prop ?payload ''jti'') = Str ''0b6f3c1e-7a52-4c1d-9e55-2f1a8f2b6d10''"
    by (simp_all add: dpop_payload_obj_def)
  have c1: "301000 \<le> date_now ?at" and c2: "301000 \<le> date_now ?late"
    by simp_all
  have o: "other_checks_pass ?at (proof_token payload_b64) ''GET''
     ''http://localhost:3001/api/crud/posts'' jwk_exported dpop_header_obj ?payload"
    by (simp add: other_checks_pass_def dpop_header_obj_def dpop_payload_obj_def
        toUpperCase_def to_upper_char_def example_platform_def)
  have b: "\<bar>date_now ?at div 1000 - 1700000000\<bar> = 300"
    and l: "\<bar>date_now ?late div 1000 - 1700000000\<bar> > 300"
    by simp_all
  from timestamp_window_inclusive [OF d1 i c1, of "''GET''" "''http://localhost:3001/api/crud/posts''" jwk_exported] o b j
  have a: "verifyDPoP ?at (proof_token payload_b64) ''GET''
     ''http://localhost:3001/api/crud/posts'' jwk_exported =
     Inr \<lparr>dpop_jti = Str ''0b6f3c1e-7a52-4c1d-9e55-2f1a8f2b6d10'', dpop_iat = Num 1700000000\<rparr>"
    by simp
  from timestamp_window_inclusive [OF d2 i c2, of "''GET''" "''http://localhost:3001/api/crud/posts''" jwk_exported] l
  have r: "\<exists>e. verifyDPoP ?late (proof_token payload_b64) ''GET''
     ''http://localhost:3001/api/crud/posts'' jwk_exported = Inl e"
    by blast
  from d1 i c1 o b a d2 c2 l r show ?thesis by blast
qed

section \<open>The fingerprint check of the middleware\<close>

lemma example_parse_fingerprint:
  "json_parse example_platform fingerprint_121_text = Some (fingerprint_at ''121'')"
  by (simp add: example_platform_def example_json_parse_def fingerprint_121_text_def
      dpop_header_text_def payload_text_def payload_lower_text_def
      jwk_stored_text_def)

lemma example_browser_info:
  "extractBrowserInfo (chrome_user_agent ''120'') = Some (''Chrome'' @ [CHR 0x5C], 120)"
  "extractBrowserInfo (chrome_user_agent ''121'') = Some (''Chrome'' @ [CHR 0x5C], 121)"
  "extractBrowserInfo (chrome_user_agent ''124'') = Some (''Chrome'' @ [CHR 0x5C], 124)"
  "extractBrowserInfo (chrome_user_agent ''125'') = Some (''Chrome'' @ [CHR 0x5C], 125)"
  by (simp_all add: extractBrowserInfo_def chrome_user_agent_def match_here_def is_digit_def
      parse_digits_def pattern_source_def)

lemma example_similarity:
  "compareFingerprintSimilarity example_platform (fingerprint_at ''120'') (fingerprint_at ''121'') = 97 / 100"
proof -
  have ua: "calculateUserAgentSimilarity (Str (chrome_user_agent ''120'')) (Str (chrome_user_agent ''121'')) = 9 / 10"
    by (simp add: calculateUserAgentSimilarity_def example_browser_info) (simp add: chrome_user_agent_def)
  have ne: "chrome_user_agent ''120'' \<noteq> chrome_user_agent ''121''"
    by (simp add: chrome_user_agent_def)
  show ?thesis
    by (simp add: compareFingerprintSimilarity_def parse_if_string_def fingerprint_at_def weights_def
        field_contribution_def ua ne)
qed

text \<open>
  C2, as the specification states it, fails. A device registers with Chrome 120 and comes
  back with Chrome 121, every other member of its fingerprint unchanged. The weighted
  similarity of the two fingerprints is 0.97, which is not below the threshold 0.7; the
  middleware nevertheless finds a mismatch and, in production mode, answers 401
  \<open>Device verification failed\<close>.
\<close>

theorem similarity_threshold_counterexample:
  "generateFingerprintHash (fingerprint_at ''120'') = dk_fingerprint_hash device_key_row \<and>
   json_parse example_platform fingerprint_121_text = Some (fingerprint_at ''121'') \<and>
   compareFingerprintSimilarity example_platform (fingerprint_at ''120'') (fingerprint_at ''121'') = 97 / 100 \<and>
   fingerprint_tolerance example_platform = 7 / 10 \<and>
   \<not> compareFingerprintSimilarity example_platform (fingerprint_at ''120'') (fingerprint_at ''121'')
       < fingerprint_tolerance example_platform \<and>
   authenticateToken example_platform
     (example_request (proof_token payload_b64) (Some fingerprint_121_text)) {} =
     (Unauthorized Device_verification_failed, {Str ''0b6f3c1e-7a52-4c1d-9e55-2f1a8f2b6d10''})"
proof -
  let ?req = "example_request (proof_token payload_b64) (Some fingerprint_121_text)"
  have h: "generateFingerprintHash (fingerprint_at ''120'') = dk_fingerprint_hash device_key_row"
    by (simp add: hash_fingerprint_120 device_key_row_def)
  have t: "fingerprint_tolerance example_platform = 7 / 10"
    by (simp add: fingerprint_tolerance_def example_platform_def)
  have n: "\<not> compareFingerprintSimilarity example_platform (fingerprint_at ''120'') (fingerprint_at ''121'')
       < fingerprint_tolerance example_platform"
    by (simp add: example_similarity t)
  have stored: "dk_fingerprint_hash (ver_deviceKey example_verified) = Some ''c429d087''"
    by (simp add: example_verified_def device_key_row_def)
  have current: "req_headers ?req ''x-fingerprint'' = Some fingerprint_121_text"
    by (simp add: example_request_def example_headers_def)
  have j: "dpop_jti (ver_dpop example_verified) = Str ''0b6f3c1e-7a52-4c1d-9e55-2f1a8f2b6d10''"
    by (simp add: example_verified_def)
  have "authenticateToken example_platform ?req {} =
      (Unauthorized Device_verification_failed, insert (dpop_jti (ver_dpop example_verified)) {})"
  proof (rule authenticateToken_production_mismatch [OF example_authenticate_verify])
    show "dpop_jti (ver_dpop example_verified) \<notin> {}" by simp
    show "truthy_str (dk_fingerprint_hash (ver_deviceKey example_verified))"
      unfolding stored by (simp add: truthy_str_def)
    show "truthy_str (req_headers ?req ''x-fingerprint'')"
      unfolding current by (simp add: truthy_str_def fingerprint_121_text_def)
    show "\<not> compareFingerprints example_platform (dk_fingerprint_hash (ver_deviceKey example_verified))
        (req_headers ?req ''x-fingerprint'') (fingerprint_tolerance example_platform)"
      unfolding stored current by (rule example_compare_mismatch)
    show "env_NODE_ENV example_platform = Some ''production''"
      by (simp add: example_platform_def)
  qed
  with j have r: "authenticateToken example_platform ?req {} =
      (Unauthorized Device_verification_failed, {Str ''0b6f3c1e-7a52-4c1d-9e55-2f1a8f2b6d10''})"
    by simp
  from h example_parse_fingerprint example_similarity t n r show ?thesis by blast
qed

text \<open>
  C2, amended. When a current fingerprint is supplied and a fingerprint hash is stored, the
  middleware parses and hashes the current fingerprint and compares the two hashes for
  equality. In production mode the request is rejected with 401
  \<open>Device verification failed\<close> exactly when the hashes differ (or the header does not parse);
  where the request is accepted, its \<open>fingerprintMismatch\<close> flag says whether they differ.
  The acceptance threshold is handed to \<open>compareFingerprints\<close> and has no influence on the
  result; no similarity score is computed.
\<close>

theorem fingerprint_mismatch_is_hash_mismatch:
  assumes "authenticate_verify env req = Inr v" and "dpop_jti (ver_dpop v) \<notin> jtiCache"
    and "dk_fingerprint_hash (ver_deviceKey v) = Some storedHash" and "storedHash \<noteq> []"
    and "req_headers req ''x-fingerprint'' = Some current" and "current \<noteq> []"
  shows "(fst (authenticateToken env req jtiCache) = Unauthorized Device_verification_failed \<longleftrightarrow>
            env_NODE_ENV env = Some ''production'' \<and>
            (case json_parse env current of None \<Rightarrow> None | Some d \<Rightarrow> generateFingerprintHash d)
              \<noteq> Some storedHash) \<and>
         (\<forall>a. fst (authenticateToken env req jtiCache) = Next_called a \<longrightarrow>
            (acc_fingerprintMismatch a \<longleftrightarrow>
               (case json_parse env current of None \<Rightarrow> None | Some d \<Rightarrow> generateFingerprintHash d)
                 \<noteq> Some storedHash)) \<and>
         (\<forall>t t'. compareFingerprints env (Some storedHash) (Some current) t =
                  compareFingerprints env (Some storedHash) (Some current) t')"
proof -
  have cmp: "\<And>t. compareFingerprints env (Some storedHash) (Some current) t \<longleftrightarrow>
      (case json_parse env current of None \<Rightarrow> None | Some d \<Rightarrow> generateFingerprintHash d) = Some storedHash"
    using assms(4,6) by (auto simp add: compareFingerprints_def truthy_str_def split: option.splits)
  have tr: "truthy_str (Some storedHash)" "truthy_str (Some current)"
    using assms(4,6) by (simp_all add: truthy_str_def)
  show ?thesis
    using assms(1,2,3,5) tr
    by (auto simp add: authenticateToken_def authenticate_bind_def Let_def cmp)
qed

theorem fingerprint_mismatch_is_hash_mismatch_witness:
  "authenticate_verify example_platform
     (example_request (proof_token payload_b64) (Some fingerprint_121_text)) = Inr example_verified \<and>
   dpop_jti (ver_dpop example_verified) \<notin> {} \<and>
   dk_fingerprint_hash (ver_deviceKey example_verified) = Some ''c429d087'' \<and> ''c429d087'' \<noteq> [] \<and>
   req_headers (example_request (proof_token payload_b64) (Some fingerprint_121_text)) ''x-fingerprint''
     = Some fingerprint_121_text \<and> fingerprint_121_text \<noteq> [] \<and>
   env_NODE_ENV example_platform = Some ''production'' \<and>
   (case json_parse example_platform fingerprint_121_text of None \<Rightarrow> None
    | Some d \<Rightarrow> generateFingerprintHash d) \<noteq> Some ''c429d087'' \<and>
   fst (authenticateToken example_platform
     (example_request (proof_token payload_b64) (Some fingerprint_121_text)) {})
     = Unauthorized Device_verification_failed"
proof -
  let ?req = "example_request (proof_token payload_b64) (Some fingerprint_121_text)"
  have v: "authenticate_verify example_platform ?req = Inr example_verified"
    by (rule example_authenticate_verify)
  have fresh: "dpop_jti (ver_dpop example_verified) \<notin> {}" by simp
  have stored: "dk_fingerprint_hash (ver_deviceKey example_verified) = Some ''c429d087''"
    by (simp add: example_verified_def device_key_row_def)
  have s: "''c429d087'' \<noteq> []" by simp
  have current: "req_headers ?req ''x-fingerprint'' = Some fingerprint_121_text"
    by (simp add: example_request_def example_headers_def)
  have c: "fingerprint_121_text \<noteq> []"
    by (simp add: fingerprint_121_text_def)
  have p: "env_NODE_ENV example_platform = Some ''production''"
    by (simp add: example_platform_def)
  have d: "(case json_parse example_platform fingerprint_121_text of None \<Rightarrow> None
    | Some d \<Rightarrow> generateFingerprintHash d) \<noteq> Some ''c429d087''"
    by (simp add: example_parse_fingerprint hash_fingerprint_121)
  from fingerprint_mismatch_is_hash_mismatch [OF v fresh stored s current c] p d
  have "fst (authenticateToken example_platform ?req {}) = Unauthorized Device_verification_failed"
    by blast
  with v fresh stored s current c p d show ?thesis by blast
qed

section \<open>The user-agent term of the similarity\<close>

lemma extractBrowserInfo_Nil: "extractBrowserInfo [] = None"
  by (simp add: extractBrowserInfo_def match_here_def)

lemma ua_similarity_same_family:
  assumes "extractBrowserInfo s = Some (family, v1)" and "extractBrowserInfo c = Some (family, v2)"
    and "s \<noteq> c"
  shows "calculateUserAgentSimilarity (Str s) (Str c) = max 0 (1 - of_int \<bar>int v1 - int v2\<bar> / 10)"
proof -
  have "s \<noteq> []" "c \<noteq> []"
    using assms(1,2) extractBrowserInfo_Nil by auto
  with assms show ?thesis
    by (simp add: calculateUserAgentSimilarity_def Let_def)
qed

lemma get_prop_Str_Obj: "get_prop d k = Some (Str s) \<Longrightarrow> \<exists>kvs. d = Obj kvs"
  by (cases "(d, k)" rule: get_prop.cases) auto

lemma similarity_ua_only:
  assumes "get_prop stored ''ua'' = Some (Str s)" and "get_prop current ''ua'' = Some (Str c)"
    and "s \<noteq> c"
    and "\<forall>k. k \<noteq> ''ua'' \<longrightarrow> get_prop stored k = get_prop current k"
  shows "compareFingerprintSimilarity env stored current =
           7 / 10 + 3 / 10 * calculateUserAgentSimilarity (Str s) (Str c)"
proof -
  obtain skvs ckvs where obj: "stored = Obj skvs" "current = Obj ckvs"
    using assms(1,2) get_prop_Str_Obj by blast
  have same: "get_prop stored ''lang'' = get_prop current ''lang''"
      "get_prop stored ''tz'' = get_prop current ''tz''"
      "get_prop stored ''scr'' = get_prop current ''scr''"
      "get_prop stored ''hwc'' = get_prop current ''hwc''"
      "get_prop stored ''mem'' = get_prop current ''mem''"
      "get_prop stored ''platform'' = get_prop current ''platform''"
      "get_prop stored ''webgl'' = get_prop current ''webgl''"
    using assms(4) by simp_all
  have p: "parse_if_string env stored = Some stored" "parse_if_string env current = Some current"
      "\<not> falsy_data stored" "\<not> falsy_data current"
    using obj by (simp_all add: parse_if_string_def)
  show ?thesis
    using assms(1,2,3) same
    by (simp add: compareFingerprintSimilarity_def p weights_def field_contribution_def)
qed

text \<open>
  C7, as the specification states it, fails at the delta 5: between Chrome 120 and Chrome 125,
  all other members equal, the user agent contributes 0.15, which is half of its weight 0.3 and
  not more.
\<close>

theorem user_agent_delta_five_counterexample:
  "extractBrowserInfo (chrome_user_agent ''120'') = Some (''Chrome'' @ [CHR 0x5C], 120) \<and>
   extractBrowserInfo (chrome_user_agent ''125'') = Some (''Chrome'' @ [CHR 0x5C], 125) \<and>
   \<bar>int 120 - int 125\<bar> \<le> 5 \<and>
   map (get_prop (fingerprint_at ''120'')) [''lang'', ''tz'', ''scr'', ''hwc'', ''mem'', ''platform'', ''webgl''] =
   map (get_prop (fingerprint_at ''125'')) [''lang'', ''tz'', ''scr'', ''hwc'', ''mem'', ''platform'', ''webgl''] \<and>
   map_of weights ''ua'' = Some (3 / 10) \<and>
   field_contribution ''ua'' (3 / 10) (Str (chrome_user_agent ''120'')) (Str (chrome_user_agent ''125''))
     = 1 / 2 * (3 / 10) \<and>
   \<not> field_contribution ''ua'' (3 / 10) (Str (chrome_user_agent ''120'')) (Str (chrome_user_agent ''125''))
       > 1 / 2 * (3 / 10)"
proof -
  have ne: "chrome_user_agent ''120'' \<noteq> chrome_user_agent ''125''"
    by (simp add: chrome_user_agent_def)
  have "calculateUserAgentSimilarity (Str (chrome_user_agent ''120'')) (Str (chrome_user_agent ''125'')) = 1 / 2"
    using ua_similarity_same_family [OF example_browser_info(1) example_browser_info(4) ne] by simp
  with ne have c: "field_contribution ''ua'' (3 / 10) (Str (chrome_user_agent ''120''))
      (Str (chrome_user_agent ''125'')) = 1 / 2 * (3 / 10)"
    by (simp add: field_contribution_def)
  have o: "map (get_prop (fingerprint_at ''120'')) [''lang'', ''tz'', ''scr'', ''hwc'', ''mem'', ''platform'', ''webgl''] =
      map (get_prop (fingerprint_at ''125'')) [''lang'', ''tz'', ''scr'', ''hwc'', ''mem'', ''platform'', ''webgl'']"
    by (simp add: fingerprint_at_def)
  have w: "map_of weights ''ua'' = Some (3 / 10)"
    by (simp add: weights_def)
  have d: "\<bar>int 120 - int 125\<bar> \<le> 5" by simp
  from example_browser_info(1) example_browser_info(4) d o w c show ?thesis
    by simp
qed

text \<open>
  C7, amended. Let two fingerprints differ in the user agent only, and let
  \<open>extractBrowserInfo\<close> find the same browser family in both user agents, with the major
  versions \<open>v1\<close> and \<open>v2\<close> and the delta \<open>d = |v1 - v2|\<close>. Then the user agent contributes
  its weight times \<open>max(0, 1 - d/10)\<close>, and the similarity is \<open>0.7 + 0.3 * max(0, 1 - d/10)\<close>.
  For \<open>d \<le> 5\<close> the contribution is at least half of the weight, and for \<open>d < 5\<close> it is more
  than half of the weight.
\<close>

theorem user_agent_contribution:
  assumes "extractBrowserInfo s = Some (family, v1)" and "extractBrowserInfo c = Some (family, v2)"
    and "s \<noteq> c"
    and "get_prop stored ''ua'' = Some (Str s)" and "get_prop current ''ua'' = Some (Str c)"
    and "\<forall>k. k \<noteq> ''ua'' \<longrightarrow> get_prop stored k = get_prop current k"
    and "0 < w"
  shows "field_contribution ''ua'' w (Str s) (Str c) = w * max 0 (1 - of_int \<bar>int v1 - int v2\<bar> / 10) \<and>
         map_of weights ''ua'' = Some (3 / 10) \<and>
         compareFingerprintSimilarity env stored current =
           7 / 10 + 3 / 10 * max 0 (1 - of_int \<bar>int v1 - int v2\<bar> / 10) \<and>
         (\<bar>int v1 - int v2\<bar> \<le> 5 \<longrightarrow> field_contribution ''ua'' w (Str s) (Str c) \<ge> 1 / 2 * w) \<and>
         (\<bar>int v1 - int v2\<bar> < 5 \<longrightarrow> field_contribution ''ua'' w (Str s) (Str c) > 1 / 2 * w)"
proof -
  let ?d = "\<bar>int v1 - int v2\<bar>"
  have sim: "calculateUserAgentSimilarity (Str s) (Str c) = max 0 (1 - of_int ?d / 10)"
    using assms(1,2,3) by (rule ua_similarity_same_family)
  have contrib: "field_contribution ''ua'' w (Str s) (Str c) = w * max 0 (1 - of_int ?d / 10)"
    using assms(3) by (simp add: field_contribution_def sim)
  have total: "compareFingerprintSimilarity env stored current = 7 / 10 + 3 / 10 * max 0 (1 - of_int ?d / 10)"
    using similarity_ua_only [OF assms(4,5,3,6)] by (simp add: sim)
  have weight: "map_of weights ''ua'' = Some (3 / 10)"
    by (simp add: weights_def)
  have le: "field_contribution ''ua'' w (Str s) (Str c) \<ge> 1 / 2 * w" if "?d \<le> 5"
  proof -
    have "(of_int ?d :: rat) \<le> 5" using that by (metis of_int_le_iff of_int_numeral)
    then have "max 0 (1 - (of_int ?d :: rat) / 10) \<ge> 1 / 2" by simp
    then have "w * max 0 (1 - (of_int ?d :: rat) / 10) \<ge> w * (1 / 2)"
      using assms(7) by (simp only: mult_le_cancel_left_pos)
    then show ?thesis by (simp add: contrib)
  qed
  have less: "field_contribution ''ua'' w (Str s) (Str c) > 1 / 2 * w" if "?d < 5"
  proof -
    have "(of_int ?d :: rat) < 5" using that by (metis of_int_less_iff of_int_numeral)
    then have "max 0 (1 - (of_int ?d :: rat) / 10) > 1 / 2" by simp
    then have "w * max 0 (1 - (of_int ?d :: rat) / 10) > w * (1 / 2)"
      using assms(7) by (simp only: mult_less_cancel_left_pos)
    then show ?thesis by (simp add: contrib)
  qed
  from contrib weight total le less show ?thesis by blast
qed

theorem user_agent_contribution_witness:
  "extractBrowserInfo (chrome_user_agent ''120'') = Some (''Chrome'' @ [CHR 0x5C], 120) \<and>
   extractBrowserInfo (chrome_user_agent ''124'') = Some (''Chrome'' @ [CHR 0x5C], 124) \<and>
   chrome_user_agent ''120'' \<noteq> chrome_user_agent ''124'' \<and>
   get_prop (fingerprint_at ''120'') ''ua'' = Some (Str (chrome_user_agent ''120'')) \<and>
   get_prop (fingerprint_at ''124'') ''ua'' = Some (Str (chrome_user_agent ''124'')) \<and>
   (0 :: rat) < 3 / 10 \<and> \<bar>int 120 - int 124\<bar> < 5 \<and>
   field_contribution ''ua'' (3 / 10) (Str (chrome_user_agent ''120'')) (Str (chrome_user_agent ''124''))
     > 1 / 2 * (3 / 10) \<and>
   compareFingerprintSimilarity example_platform (fingerprint_at ''120'') (fingerprint_at ''124'') = 88 / 100"
proof -
  have ne: "chrome_user_agent ''120'' \<noteq> chrome_user_agent ''124''"
    by (simp add: chrome_user_agent_def)
  have u: "get_prop (fingerprint_at ''120'') ''ua'' = Some (Str (chrome_user_agent ''120''))"
      "get_prop (fingerprint_at ''124'') ''ua'' = Some (Str (chrome_user_agent ''124''))"
    by (simp_all add: fingerprint_at_def)
  have o: "\<forall>k. k \<noteq> ''ua'' \<longrightarrow> get_prop (fingerprint_at ''120'') k = get_prop (fingerprint_at ''124'') k"
    by (simp add: fingerprint_at_def)
  have w: "(0 :: rat) < 3 / 10" by simp
  have d: "\<bar>int 120 - int 124\<bar> < 5" by simp
  note inst = user_agent_contribution [OF example_browser_info(1) example_browser_info(3) ne u o w,
      of example_platform]
  from inst d have c: "field_contribution ''ua'' (3 / 10) (Str (chrome_user_agent ''120''))
      (Str (chrome_user_agent ''124'')) > 1 / 2 * (3 / 10)"
    by blast
  from inst have "compareFingerprintSimilarity example_platform (fingerprint_at ''120'') (fingerprint_at ''124'')
      = 7 / 10 + 3 / 10 * max 0 (1 - of_int \<bar>int 120 - int 124\<bar> / 10)"
    by blast
  then have t: "compareFingerprintSimilarity example_platform (fingerprint_at ''120'') (fingerprint_at ''124'')
      = 88 / 100"
    by simp
  from example_browser_info(1) example_browser_info(3) ne u w d c t show ?thesis
    by blast
qed

section \<open>The anti-scraping middleware\<close>

text \<open>
  C10. A request whose path starts with \<open>/api/\<close> and that carries an Authorization header
  (one with a value: the code tests \<open>req.headers.authorization\<close> for truth, and the empty
  string is not true) passes at once: the middleware calls \<open>next()\<close> and leaves
  \<open>requestPatterns\<close> as it was, whatever the clock, the other headers and the recorded
  patterns are. Nothing is recorded, no score changes, and no verdict of the bot detection, of
  the frequency check or of the header validation can change the outcome.
\<close>

theorem authenticated_api_request_passes_at_once:
  assumes "startsWith (req_path req) ''/api/''"
    and "truthy_str (req_headers req ''authorization'')"
  shows "middleware sha256_hex now now' req requestPatterns = (Next_at_once, requestPatterns)"
  using assms by (simp add: middleware_def)

theorem authenticated_api_request_passes_at_once_witness:
  "startsWith (req_path curl_api_request) ''/api/'' \<and>
   truthy_str (req_headers curl_api_request ''authorization'') \<and>
   detectBot example_sha256_hex curl_api_request penalised_state \<and>
   \<not> validateBrowserHeaders curl_api_request \<and>
   middleware example_sha256_hex 1700000001000 1700000001000 curl_api_request penalised_state =
     (Next_at_once, penalised_state)"
proof -
  have p: "startsWith (req_path curl_api_request) ''/api/''"
    by (simp add: startsWith_def curl_api_request_def)
  have a: "truthy_str (req_headers curl_api_request ''authorization'')"
    by (simp add: truthy_str_def curl_api_request_def curl_headers_def)
  have b: "detectBot example_sha256_hex curl_api_request penalised_state"
    by (simp add: detectBot_def Let_def header_or_empty_def curl_api_request_def curl_headers_def
        botUserAgents_def regex_test_def to_lower_char_def)
  have v: "\<not> validateBrowserHeaders curl_api_request"
    by (simp add: validateBrowserHeaders_def Let_def header_or_empty_def curl_api_request_def
        curl_headers_def startsWith_def)
  from authenticated_api_request_passes_at_once [OF p a] p a b v show ?thesis
    by blast
qed

section \<open>The range of the suspicion score\<close>

lemma calculateSuspicionScore_bounds:
  "0 \<le> calculateSuspicionScore p \<and> calculateSuspicionScore p \<le> 100"
  by (simp add: calculateSuspicionScore_def Let_def)

lemma analyze_bounded:
  "score_bounded s \<Longrightarrow> score_bounded (analyzeRequestPattern now req clientId s)"
  using calculateSuspicionScore_bounds
  by (auto simp add: score_bounded_def analyzeRequestPattern_def Let_def)

lemma detectBot_score:
  "s (getClientId H req) = Some p \<Longrightarrow> pat_suspicionScore p > 70 \<Longrightarrow> detectBot H req s"
  by (simp add: detectBot_def Let_def)

text \<open>
  The penalty is applied only after \<open>detectBot\<close> has returned false, that is on a score of
  at most 70.
\<close>

lemma penalty_bounded:
  assumes "score_bounded s" and "\<not> detectBot H req s"
  shows "score_bounded (handleSuspiciousActivity H req s)"
proof (cases "s (getClientId H req)")
  case None
  with assms show ?thesis by (simp add: handleSuspiciousActivity_def)
next
  case (Some p)
  with assms(2) have "pat_suspicionScore p \<le> 70"
    using detectBot_score by fastforce
  moreover have "0 \<le> pat_suspicionScore p"
    using assms(1) Some by (simp add: score_bounded_def)
  ultimately show ?thesis
    using assms(1) Some
    by (auto simp add: score_bounded_def handleSuspiciousActivity_def)
qed

lemma middleware_bounded:
  assumes "score_bounded s"
  shows "score_bounded (snd (middleware H now now' req s))"
  using assms analyze_bounded [OF assms] penalty_bounded
  by (auto simp add: middleware_def Let_def)

lemma cleanup_bounded:
  "score_bounded s \<Longrightarrow> score_bounded (cleanup now s)"
  by (auto simp add: score_bounded_def cleanup_def Let_def split: option.splits if_splits)

lemma reachable_bounded: "reachable s \<Longrightarrow> score_bounded s"
proof (induction rule: reachable.induct)
  case initial
  show ?case by (simp add: score_bounded_def)
next
  case (request s sha256_hex now now' req)
  then show ?case by (simp add: middleware_bounded)
next
  case (timer s now)
  then show ?case by (simp add: cleanup_bounded)
qed

lemma penalised_state_value:
  "penalised_state ''b20f7e508229a8a3'' =
     Some \<lparr>pat_requests = [entry_of 1700000000000 (page_request ''identity'' ''/'')],
           pat_paths = [''/''], pat_userAgents = [Some (chrome_user_agent ''120'')],
           pat_suspicionScore = 20\<rparr>"
proof -
  let ?req = "page_request ''identity'' ''/''"
  have id: "getClientId example_sha256_hex ?req = ''b20f7e508229a8a3''"
    by (simp add: getClientId_def page_request_def browser_headers_def header_or_empty_def
        truthy_str_def example_sha256_hex_def chrome_user_agent_def)
  have a: "analyzeRequestPattern 1700000000000 ?req ''b20f7e508229a8a3'' (\<lambda>clientId. None) =
      (\<lambda>clientId. None)(''b20f7e508229a8a3'' \<mapsto>
        \<lparr>pat_requests = [entry_of 1700000000000 ?req], pat_paths = [''/''],
         pat_userAgents = [Some (chrome_user_agent ''120'')], pat_suspicionScore = 0\<rparr>)"
    by (simp add: analyzeRequestPattern_def record_request_def pattern_or_new_def set_add_def
        entry_of_def calculateSuspicionScore_def hasSequentialPaths_def page_request_def
        browser_headers_def)
  have s: "\<not> startsWith (req_path ?req) ''/api/''"
    by (simp add: startsWith_def page_request_def)
  have u: "\<not> list_ex (\<lambda>regex. regex_test regex (header_or_empty ?req ''user-agent'')) botUserAgents"
    by (simp add: header_or_empty_def page_request_def browser_headers_def chrome_user_agent_def
        botUserAgents_def regex_test_def to_lower_char_def)
  have b: "\<not> detectBot example_sha256_hex ?req
      ((\<lambda>clientId. None)(''b20f7e508229a8a3'' \<mapsto>
        \<lparr>pat_requests = [entry_of 1700000000000 ?req], pat_paths = [''/''],
         pat_userAgents = [Some (chrome_user_agent ''120'')], pat_suspicionScore = 0\<rparr>))"
    using u
    by (simp add: detectBot_def Let_def id)
       (simp add: header_or_empty_def page_request_def browser_headers_def truthy_str_def)
  have f: "\<not> isRequestTooFrequent 1700000000000 ''b20f7e508229a8a3''
      ((\<lambda>clientId. None)(''b20f7e508229a8a3'' \<mapsto>
        \<lparr>pat_requests = [entry_of 1700000000000 ?req], pat_paths = [''/''],
         pat_userAgents = [Some (chrome_user_agent ''120'')], pat_suspicionScore = 0\<rparr>))"
    by (simp add: isRequestTooFrequent_def)
  have v: "\<not> validateBrowserHeaders ?req"
    by (simp add: validateBrowserHeaders_def Let_def header_or_empty_def page_request_def
        browser_headers_def startsWith_def)
  show ?thesis
    unfolding penalised_state_def
    using s b f v
    by (simp add: middleware_def Let_def id a handleSuspiciousActivity_def)
qed

text \<open>
  C6. In every state of \<open>requestPatterns\<close> that the server can reach, through any sequence
  of requests to the middleware and of runs of the cleanup timer, the suspicion score stored
  for any client lies between 0 and 100, the penalties of \<open>handleSuspiciousActivity\<close>
  included.
\<close>

theorem stored_score_in_range:
  assumes "reachable s" and "s clientId = Some p"
  shows "0 \<le> pat_suspicionScore p \<and> pat_suspicionScore p \<le> 100"
  using reachable_bounded [OF assms(1)] assms(2) by (simp add: score_bounded_def)

theorem stored_score_in_range_witness:
  "reachable penalised_state \<and>
   penalised_state ''b20f7e508229a8a3'' =
     Some \<lparr>pat_requests = [entry_of 1700000000000 (page_request ''identity'' ''/'')],
           pat_paths = [''/''], pat_userAgents = [Some (chrome_user_agent ''120'')],
           pat_suspicionScore = 20\<rparr> \<and>
   (0 :: int) \<le> 20 \<and> (20 :: int) \<le> 100"
proof -
  have r: "reachable penalised_state"
    unfolding penalised_state_def by (rule reachable.request [OF reachable.initial])
  from stored_score_in_range [OF r penalised_state_value] r penalised_state_value
  show ?thesis by simp
qed

section \<open>A sequential scraper\<close>
































































end
